theory Spec2Isabelle
  imports Complex_Main "HOL-Library.Log_Nat"
begin

section \<open>Python values: exceptions and dense arrays\<close>

text \<open>
  The embedding follows \<^verbatim>\<open>src/embed/base_mase.py\<close>, \<^verbatim>\<open>src/embed/mase.py\<close> and
  \<^verbatim>\<open>src/embed/mds.py\<close>. A Python exception is a value of \<open>pyexc\<close>, named after the
  exception class and carrying the message (or, for a failed attribute lookup, the
  attribute's name). A computation that may raise returns \<open>pyexc + 'a\<close>, with \<open>Inl\<close>
  for the exception.

  Entries of arrays are idealised as real numbers: numpy's float64 rounding is not
  modelled. The statements proved below are about which arrays the code combines and
  in which order, and about the branches it takes.
\<close>

datatype pyexc =
    ValueError string
  | TypeError string
  | NameError string
  | AttributeError string
  | IndexError string
  | OverflowError string
  | ZeroDivisionError string

type_synonym 'a result = "pyexc + 'a"

text \<open>
  A two-dimensional \<^verbatim>\<open>ndarray\<close>: its shape and its rows. The shape is kept
  beside the rows so that arrays with no rows or no columns keep their other dimension,
  as in numpy.
\<close>

datatype matrix = Matrix (nrows: nat) (ncols: nat) (rows: "real list list")

definition wf_matrix :: "matrix \<Rightarrow> bool" where
  "wf_matrix A = (length (rows A) = nrows A \<and> list_all (\<lambda>r. length r = ncols A) (rows A))"

definition shape :: "matrix \<Rightarrow> nat \<times> nat" where
  "shape A = (nrows A, ncols A)"

text \<open>Python's slice \<^verbatim>\<open>xs[:k]\<close>; a negative \<open>k\<close> counts from the end.\<close>

definition py_take :: "int \<Rightarrow> 'a list \<Rightarrow> 'a list" where
  "py_take k xs = (if 0 \<le> k then take (nat k) xs else take (length xs - nat (- k)) xs)"

text \<open>\<^verbatim>\<open>A[:, :k]\<close>\<close>

definition slice_cols :: "int \<Rightarrow> matrix \<Rightarrow> matrix" where
  "slice_cols k A =
     Matrix (nrows A) (length (py_take k [0..<ncols A])) (map (py_take k) (rows A))"

text \<open>\<^verbatim>\<open>A.T\<close>\<close>

definition column :: "matrix \<Rightarrow> nat \<Rightarrow> real list" where
  "column A j = map (\<lambda>r. r ! j) (rows A)"

definition transpose_m :: "matrix \<Rightarrow> matrix" where
  "transpose_m A = Matrix (ncols A) (nrows A) (map (column A) [0..<ncols A])"

text \<open>\<^verbatim>\<open>np.diag(v)\<close> for a one-dimensional \<open>v\<close>\<close>

definition diag :: "real list \<Rightarrow> matrix" where
  "diag v = Matrix (length v) (length v)
     (map (\<lambda>i. map (\<lambda>j. if i = j then v ! i else 0) [0..<length v]) [0..<length v])"

text \<open>\<^verbatim>\<open>A @ B\<close> for two-dimensional arrays; numpy raises ValueError when the inner
  dimensions differ.\<close>

definition dot :: "real list \<Rightarrow> real list \<Rightarrow> real" where
  "dot xs ys = sum_list (map2 (*) xs ys)"

definition matmul :: "matrix \<Rightarrow> matrix \<Rightarrow> matrix result" where
  "matmul A B =
     (if ncols A \<noteq> nrows B then Inl (ValueError ''matmul: mismatch in core dimension'')
      else Inr (Matrix (nrows A) (ncols B)
                  (map (\<lambda>r. map (\<lambda>j. dot r (column B j)) [0..<ncols B]) (rows A))))"

text \<open>\<^verbatim>\<open>np.hstack(As)\<close> for two-dimensional arrays: ValueError for an empty list and
  for arrays whose row counts differ.\<close>

definition hstack :: "matrix list \<Rightarrow> matrix result" where
  "hstack As =
     (case As of
        [] \<Rightarrow> Inl (ValueError ''need at least one array to concatenate'')
      | A # _ \<Rightarrow>
          if list_all (\<lambda>B. nrows B = nrows A) As
          then Inr (Matrix (nrows A) (sum_list (map ncols As))
                      (map (\<lambda>i. concat (map (\<lambda>B. rows B ! i) As)) [0..<nrows A]))
          else Inl (ValueError ''all the input array dimensions except for the concatenation axis must match exactly''))"

text \<open>Elementwise operations and constants.\<close>

definition map_matrix :: "(real \<Rightarrow> real) \<Rightarrow> matrix \<Rightarrow> matrix" where
  "map_matrix f A = Matrix (nrows A) (ncols A) (map (map f) (rows A))"

definition identity :: "nat \<Rightarrow> matrix" where
  "identity n = Matrix n n (map (\<lambda>i. map (\<lambda>j. if i = j then 1 else 0) [0..<n]) [0..<n])"

definition ones :: "nat \<Rightarrow> nat \<Rightarrow> matrix" where
  "ones n m = Matrix n m (replicate n (replicate m 1))"

text \<open>\<^verbatim>\<open>A - B\<close> for arrays of one shape (the only use in the source).\<close>

definition minus_matrix :: "matrix \<Rightarrow> matrix \<Rightarrow> matrix" where
  "minus_matrix A B = Matrix (nrows A) (ncols A) (map2 (map2 (-)) (rows A) (rows B))"

text \<open>\<^verbatim>\<open>A * c\<close> for a scalar \<open>c\<close>\<close>

definition scale_matrix :: "matrix \<Rightarrow> real \<Rightarrow> matrix" where
  "scale_matrix A c = map_matrix (\<lambda>x. x * c) A"

text \<open>
  The Python objects the estimators receive as input: a list (or tuple) of
  two-dimensional arrays, a two-dimensional array, a three-dimensional array given by
  its slices along the first axis, or anything else. Arrays of other dimension counts
  and lists whose elements are not arrays (networkx graphs) are outside the model.
\<close>

datatype pyobj =
    PyList "matrix list"
  | NdArray2 matrix
  | NdArray3 "matrix list"
  | PyOther

text \<open>What iterating over the object (\<^verbatim>\<open>for g in graphs\<close>) yields.\<close>

fun graphs_of :: "pyobj \<Rightarrow> matrix list" where
  "graphs_of (PyList gs) = gs"
| "graphs_of (NdArray3 gs) = gs"
| "graphs_of (NdArray2 A) = []"
| "graphs_of PyOther = []"

text \<open>A list comprehension over a function that may raise: the first exception ends it.\<close>

fun map_result :: "('a \<Rightarrow> 'b result) \<Rightarrow> 'a list \<Rightarrow> 'b list result" where
  "map_result f [] = Inr []"
| "map_result f (x # xs) =
     (case f x of
        Inl e \<Rightarrow> Inl e
      | Inr y \<Rightarrow> (case map_result f xs of Inl e \<Rightarrow> Inl e | Inr ys \<Rightarrow> Inr (y # ys)))"

text \<open>\<^verbatim>\<open>np.max\<close> of a non-empty list.\<close>

fun max_list :: "real list \<Rightarrow> real" where
  "max_list [] = 0"
| "max_list (x # xs) = fold max xs x"

section \<open>Collaborators\<close>

text \<open>
  \<^verbatim>\<open>import_graph\<close>, \<^verbatim>\<open>is_almost_symmetric\<close> and \<^verbatim>\<open>is_symmetric\<close> (module
  \<^verbatim>\<open>utils\<close>), \<^verbatim>\<open>selectSVD\<close> and \<^verbatim>\<open>select_dimension\<close> (module \<^verbatim>\<open>svd\<close>) are not
  among the source files, and \<^verbatim>\<open>check_array\<close> is scikit-learn's. The model takes them as
  parameters; each may raise.

  \<^item> \<open>import_graph\<close> is the call on one element of a list, \<open>import_graph3\<close> the call on
    a three-dimensional array.
  \<^item> \<open>selectSVD X n_components n_elbows algorithm n_iter\<close>: \<open>n_components\<close> is the
    value passed (\<open>None\<close> is Python's None); \<open>n_elbows\<close> and \<open>n_iter\<close> are \<open>None\<close>
    where the call leaves the keyword out. The result is the triple \<open>(U, D, V)\<close>.
  \<^item> \<open>check_array_2d X\<close> is \<^verbatim>\<open>check_array(X, ensure_2d=True, allow_nd=False)\<close>, whose
    result is two-dimensional; \<open>check_array_nd X\<close> is the call with
    \<^verbatim>\<open>allow_nd=True\<close>.
\<close>

record collaborators =
  import_graph :: "matrix \<Rightarrow> matrix result"
  import_graph3 :: "matrix list \<Rightarrow> matrix list result"
  is_almost_symmetric :: "matrix \<Rightarrow> bool result"
  is_symmetric :: "matrix \<Rightarrow> bool result"
  selectSVD :: "matrix \<Rightarrow> int option \<Rightarrow> int option \<Rightarrow> string \<Rightarrow> int option
                  \<Rightarrow> (matrix \<times> real list \<times> matrix) result"
  select_dimension :: "real list \<Rightarrow> int \<Rightarrow> (real list \<times> real list) result"
  check_array_2d :: "pyobj \<Rightarrow> matrix result"
  check_array_nd :: "pyobj \<Rightarrow> pyobj result"

section \<open>The estimator object\<close>

text \<open>
  One record for a \<^verbatim>\<open>BaseEmbed\<close>/\<^verbatim>\<open>MultipleASE\<close> instance. The constructor's
  parameters are always present. The attributes that \<^verbatim>\<open>fit\<close> creates end in an
  underscore in the source and in a prime here (\<open>latent_left'\<close> is
  \<^verbatim>\<open>latent_left_\<close>); each is \<open>None\<close> while the instance does not have it, and
  \<open>latent_right'\<close> is \<open>Some None\<close> when the attribute exists and holds Python's
  None.
\<close>

record estimator =
  n_components :: "int option"
  n_elbows :: int
  algorithm :: string
  n_iter :: int
  check_lcc :: bool
  scaled :: bool
  n_graphs' :: "nat option"
  n_vertices' :: "nat option"
  undirected :: "bool option"
  n_components' :: "nat option"
  singular_values' :: "real list option"
  latent_left' :: "matrix option"
  latent_right' :: "matrix option option"
  scores' :: "matrix list option"

text \<open>\<^verbatim>\<open>MultipleASE.__init__\<close>; \<open>scaled\<close> is a bool by its type, so the TypeError
  of the constructor has no branch here. \<^verbatim>\<open>check_lcc\<close> takes the default of
  \<^verbatim>\<open>BaseEmbedMulti.__init__\<close>.\<close>

definition MultipleASE_init :: "int option \<Rightarrow> int \<Rightarrow> string \<Rightarrow> int \<Rightarrow> bool \<Rightarrow> estimator" where
  "MultipleASE_init nc ne alg ni sc =
     \<lparr>n_components = nc, n_elbows = ne, algorithm = alg, n_iter = ni, check_lcc = True,
      scaled = sc, n_graphs' = None, n_vertices' = None, undirected = None,
      n_components' = None, singular_values' = None, latent_left' = None,
      latent_right' = None, scores' = None\<rparr>"

text \<open>Reading an attribute: AttributeError when the instance does not have it.\<close>

definition getattr :: "'a option \<Rightarrow> string \<Rightarrow> 'a result" where
  "getattr v name = (case v of None \<Rightarrow> Inl (AttributeError name) | Some x \<Rightarrow> Inr x)"

section \<open>\<^verbatim>\<open>BaseEmbed\<close> and \<^verbatim>\<open>BaseEmbedMulti\<close> (\<^verbatim>\<open>base_mase.py\<close>)\<close>

text \<open>\<^verbatim>\<open>BaseEmbed._reduce_dim\<close>: the single-graph reduction.\<close>

definition BaseEmbed_reduce_dim :: "collaborators \<Rightarrow> matrix \<Rightarrow> estimator \<Rightarrow> unit result \<times> estimator" where
  "BaseEmbed_reduce_dim env A self =
     (case selectSVD env A (n_components self) (Some (n_elbows self)) (algorithm self)
             (Some (n_iter self)) of
        Inl e \<Rightarrow> (Inl e, self)
      | Inr (U, D, V) \<Rightarrow>
          (let s1 = self\<lparr>n_components' := Some (length D), singular_values' := Some D\<rparr> in
           case matmul U (diag (map sqrt D)) of
             Inl e \<Rightarrow> (Inl e, s1)
           | Inr L \<Rightarrow>
               (let s2 = s1\<lparr>latent_left' := Some L\<rparr> in
                case is_almost_symmetric env A of
                  Inl e \<Rightarrow> (Inl e, s2)
                | Inr symm \<Rightarrow>
                    if \<not> symm then
                      (case matmul (transpose_m V) (diag (map sqrt D)) of
                         Inl e \<Rightarrow> (Inl e, s2)
                       | Inr R \<Rightarrow> (Inr (), s2\<lparr>latent_right' := Some (Some R)\<rparr>))
                    else (Inr (), s2\<lparr>latent_right' := Some None\<rparr>))))"

text \<open>\<^verbatim>\<open>BaseEmbed._fit_transform\<close>; \<open>fit\<close> is the method of the instance's class.\<close>

definition BaseEmbed_fit_transform_impl ::
  "(pyobj \<Rightarrow> estimator \<Rightarrow> unit result \<times> estimator) \<Rightarrow> pyobj \<Rightarrow> estimator
     \<Rightarrow> matrix list result \<times> estimator" where
  "BaseEmbed_fit_transform_impl fit graph self =
     (case fit graph self of
        (Inl e, s) \<Rightarrow> (Inl e, s)
      | (Inr _, s) \<Rightarrow> (getattr (scores' s) ''scores_'', s))"

text \<open>\<^verbatim>\<open>BaseEmbedMulti._check_input_graphs\<close>\<close>

definition BaseEmbedMulti_check_input_graphs ::
  "collaborators \<Rightarrow> pyobj \<Rightarrow> estimator \<Rightarrow> pyobj result \<times> estimator" where
  "BaseEmbedMulti_check_input_graphs env graphs self =
     (case (case graphs of
              PyList gs \<Rightarrow>
                if length gs \<le> 1
                then Inl (ValueError ''Input must have at least 2 graphs'')
                else (case map_result (import_graph env) gs of
                        Inl e \<Rightarrow> Inl e
                      | Inr out \<Rightarrow> Inr (PyList out))
            | NdArray2 A \<Rightarrow> Inl (ValueError ''Input tensor must be 3-dimensional'')
            | NdArray3 gs \<Rightarrow>
                if length gs \<le> 1
                then Inl (ValueError ''Input tensor must have at least 2 elements'')
                else (case import_graph3 env gs of
                        Inl e \<Rightarrow> Inl e
                      | Inr out \<Rightarrow> Inr (NdArray3 out))
            | PyOther \<Rightarrow> Inl (TypeError ''Input must be a list or ndarray'')) of
        Inl e \<Rightarrow> (Inl e, self)
      | Inr out \<Rightarrow>
          (let s1 = self\<lparr>n_graphs' := Some (length (graphs_of out))\<rparr> in
           case graphs_of out of
             [] \<Rightarrow> (Inl (IndexError ''index 0 is out of bounds''), s1)
           | g # _ \<Rightarrow> (Inr out, s1\<lparr>n_vertices' := Some (nrows g)\<rparr>)))"

section \<open>\<^verbatim>\<open>MultipleASE\<close> (\<^verbatim>\<open>mase.py\<close>)\<close>

text \<open>\<^verbatim>\<open>all(p(g) for g in graphs)\<close>: the generator stops at the first False.\<close>

fun all_result :: "('a \<Rightarrow> bool result) \<Rightarrow> 'a list \<Rightarrow> bool result" where
  "all_result p [] = Inr True"
| "all_result p (x # xs) =
     (case p x of
        Inl e \<Rightarrow> Inl e
      | Inr b \<Rightarrow> if b then all_result p xs else Inr False)"

text \<open>
  \<^verbatim>\<open>A @ graphs\<close> and \<^verbatim>\<open>Ms @ B\<close> with a stack of matrices on one side. A Python
  list is first converted to an array, which numpy refuses when the shapes of the
  elements differ; the product is then taken slice by slice. (The callers pass the
  result of \<^verbatim>\<open>_check_input_graphs\<close>, a list or a three-dimensional array; the other
  two cases of \<open>as_tensor\<close> are not reached.)
\<close>

definition as_tensor :: "pyobj \<Rightarrow> matrix list result" where
  "as_tensor graphs =
     (case graphs of
        PyList gs \<Rightarrow>
          (case gs of
             [] \<Rightarrow> Inl (ValueError ''matmul: operand does not have enough dimensions'')
           | g # _ \<Rightarrow>
               if list_all (\<lambda>h. shape h = shape g) gs then Inr gs
               else Inl (ValueError ''setting an array element with a sequence: inhomogeneous shape''))
      | NdArray3 gs \<Rightarrow> Inr gs
      | NdArray2 A \<Rightarrow> Inr [A]
      | PyOther \<Rightarrow> Inl (TypeError ''unsupported operand for @''))"

definition matmul_left :: "matrix \<Rightarrow> pyobj \<Rightarrow> matrix list result" where
  "matmul_left A graphs =
     (case as_tensor graphs of
        Inl e \<Rightarrow> Inl e
      | Inr gs \<Rightarrow> map_result (matmul A) gs)"

definition matmul_right :: "matrix list \<Rightarrow> matrix \<Rightarrow> matrix list result" where
  "matmul_right Ms B = map_result (\<lambda>M. matmul M B) Ms"

text \<open>\<^verbatim>\<open>L.T @ graphs @ R\<close>\<close>

definition project :: "matrix \<Rightarrow> pyobj \<Rightarrow> matrix \<Rightarrow> matrix list result" where
  "project L graphs R =
     (case matmul_left (transpose_m L) graphs of
        Inl e \<Rightarrow> Inl e
      | Inr Ms \<Rightarrow> matmul_right Ms R)"

text \<open>
  \<^verbatim>\<open>MultipleASE._reduce_dim\<close>, in the order of the source: the rank of the first
  stage, the decomposition of every graph, the shared dimension, the two stacked
  matrices, the two decompositions of the second stage.
\<close>

text \<open>\<^verbatim>\<open>int(np.ceil(np.log2(np.min(self.n_vertices_))))\<close>: the logarithm of 0 is
  \<open>-inf\<close>, which \<^verbatim>\<open>int\<close> refuses.\<close>

definition first_stage_rank :: "estimator \<Rightarrow> int result" where
  "first_stage_rank self =
     (case getattr (n_vertices' self) ''n_vertices_'' of
        Inl e \<Rightarrow> Inl e
      | Inr n \<Rightarrow>
          if n = 0 then Inl (OverflowError ''cannot convert float infinity to integer'')
          else Inr (int (ceillog2 n)))"

definition first_stage ::
  "collaborators \<Rightarrow> estimator \<Rightarrow> matrix list \<Rightarrow> (matrix \<times> real list \<times> matrix) list result" where
  "first_stage env self gs =
     (case first_stage_rank self of
        Inl e \<Rightarrow> Inl e
      | Inr k \<Rightarrow>
          map_result (\<lambda>g. selectSVD env g (Some k) None (algorithm self) (Some (n_iter self))) gs)"

text \<open>\<^verbatim>\<open>elbows[-1]\<close> of the elbows that \<^verbatim>\<open>select_dimension\<close> returns for one spectrum.\<close>

definition last_elbow :: "collaborators \<Rightarrow> estimator \<Rightarrow> real list \<Rightarrow> real result" where
  "last_elbow env self D =
     (case select_dimension env D (n_elbows self) of
        Inl e \<Rightarrow> Inl e
      | Inr (elbows, likelihoods) \<Rightarrow>
          if elbows = [] then Inl (IndexError ''list index out of range'')
          else Inr (last elbows))"

definition best_dimension :: "collaborators \<Rightarrow> estimator \<Rightarrow> real list list \<Rightarrow> int result" where
  "best_dimension env self Ds =
     (case n_components self of
        None \<Rightarrow>
          (case map_result (last_elbow env self) Ds of
             Inl e \<Rightarrow> Inl e
           | Inr embedding_dimensions \<Rightarrow>
               if embedding_dimensions = []
               then Inl (ValueError ''zero-size array to reduction operation maximum'')
               else Inr \<lceil>max_list embedding_dimensions\<rceil>)
      | Some d \<Rightarrow> Inr d)"

text \<open>One block of a stacked matrix: \<^verbatim>\<open>U[:, :best_dimension]\<close>, multiplied by
  \<^verbatim>\<open>np.diag(np.sqrt(D[:best_dimension]))\<close> when \<^verbatim>\<open>scaled\<close> is set.\<close>

definition truncate_basis :: "bool \<Rightarrow> int \<Rightarrow> matrix \<times> real list \<Rightarrow> matrix result" where
  "truncate_basis sc d UD =
     (case UD of (U, D) \<Rightarrow>
        if \<not> sc then Inr (slice_cols d U)
        else matmul (slice_cols d U) (diag (map sqrt (py_take d D))))"

definition stack_bases :: "bool \<Rightarrow> int \<Rightarrow> (matrix \<times> real list) list \<Rightarrow> matrix result" where
  "stack_bases sc d UDs =
     (case map_result (truncate_basis sc d) UDs of
        Inl e \<Rightarrow> Inl e
      | Inr blocks \<Rightarrow> hstack blocks)"

definition left_factors :: "(matrix \<times> real list \<times> matrix) list \<Rightarrow> (matrix \<times> real list) list" where
  "left_factors embeddings = map (\<lambda>(U, D, V). (U, D)) embeddings"

definition right_factors :: "(matrix \<times> real list \<times> matrix) list \<Rightarrow> (matrix \<times> real list) list" where
  "right_factors embeddings = map (\<lambda>(U, D, V). (transpose_m V, D)) embeddings"

text \<open>The \<open>D\<close> of one embedding \<open>(U, D, V)\<close>.\<close>

definition spectrum :: "matrix \<times> real list \<times> matrix \<Rightarrow> real list" where
  "spectrum emb = (case emb of (U, D, V) \<Rightarrow> D)"

text \<open>The matrices \<^verbatim>\<open>Us\<close> and \<^verbatim>\<open>Vs\<close> handed to the second stage.\<close>

definition stacked_matrices ::
  "collaborators \<Rightarrow> estimator \<Rightarrow> matrix list \<Rightarrow> (matrix \<times> matrix) result" where
  "stacked_matrices env self gs =
     (case first_stage env self gs of
        Inl e \<Rightarrow> Inl e
      | Inr embeddings \<Rightarrow>
          if embeddings = [] then Inl (ValueError ''not enough values to unpack'')
          else
            (case best_dimension env self (map spectrum embeddings) of
               Inl e \<Rightarrow> Inl e
             | Inr d \<Rightarrow>
                 (case stack_bases (scaled self) d (left_factors embeddings) of
                    Inl e \<Rightarrow> Inl e
                  | Inr Us \<Rightarrow>
                      (case stack_bases (scaled self) d (right_factors embeddings) of
                         Inl e \<Rightarrow> Inl e
                       | Inr Vs \<Rightarrow> Inr (Us, Vs)))))"

definition second_stage :: "collaborators \<Rightarrow> estimator \<Rightarrow> matrix \<Rightarrow> matrix result" where
  "second_stage env self M =
     (case selectSVD env M (n_components self) (Some (n_elbows self)) (algorithm self)
             (Some (n_iter self)) of
        Inl e \<Rightarrow> Inl e
      | Inr (Uhat, D, V) \<Rightarrow> Inr Uhat)"

definition MultipleASE_reduce_dim ::
  "collaborators \<Rightarrow> estimator \<Rightarrow> matrix list \<Rightarrow> (matrix \<times> matrix) result" where
  "MultipleASE_reduce_dim env self gs =
     (case stacked_matrices env self gs of
        Inl e \<Rightarrow> Inl e
      | Inr (Us, Vs) \<Rightarrow>
          (case second_stage env self Us of
             Inl e \<Rightarrow> Inl e
           | Inr Uhat \<Rightarrow>
               (case second_stage env self Vs of
                  Inl e \<Rightarrow> Inl e
                | Inr Vhat \<Rightarrow> Inr (Uhat, Vhat))))"

text \<open>\<^verbatim>\<open>MultipleASE.fit\<close>\<close>

definition MultipleASE_fit :: "collaborators \<Rightarrow> pyobj \<Rightarrow> estimator \<Rightarrow> unit result \<times> estimator" where
  "MultipleASE_fit env graphs self =
     (case BaseEmbedMulti_check_input_graphs env graphs self of
        (Inl e, s1) \<Rightarrow> (Inl e, s1)
      | (Inr out, s1) \<Rightarrow>
          (case all_result (is_almost_symmetric env) (graphs_of out) of
             Inl e \<Rightarrow> (Inl e, s1)
           | Inr und \<Rightarrow>
               (let s2 = s1\<lparr>undirected := Some und\<rparr> in
                case MultipleASE_reduce_dim env s2 (graphs_of out) of
                  Inl e \<Rightarrow> (Inl e, s2)
                | Inr (Uhat, Vhat) \<Rightarrow>
                    (let s3 = s2\<lparr>latent_left' := Some Uhat\<rparr> in
                     if \<not> und then
                       (let s4 = s3\<lparr>latent_right' := Some (Some Vhat)\<rparr> in
                        case project Uhat out Vhat of
                          Inl e \<Rightarrow> (Inl e, s4)
                        | Inr R \<Rightarrow> (Inr (), s4\<lparr>scores' := Some R\<rparr>))
                     else
                       (let s4 = s3\<lparr>latent_right' := Some None\<rparr> in
                        case project Uhat out Uhat of
                          Inl e \<Rightarrow> (Inl e, s4)
                        | Inr R \<Rightarrow> (Inr (), s4\<lparr>scores' := Some R\<rparr>))))))"

text \<open>\<^verbatim>\<open>MultipleASE.fit_transform\<close>\<close>

definition MultipleASE_fit_transform ::
  "collaborators \<Rightarrow> pyobj \<Rightarrow> estimator \<Rightarrow> matrix list result \<times> estimator" where
  "MultipleASE_fit_transform env graphs self =
     BaseEmbed_fit_transform_impl (MultipleASE_fit env) graphs self"

text \<open>
  \<^verbatim>\<open>MultipleASE.transform\<close>. The \<^verbatim>\<open>try\<close> statement reads \<^verbatim>\<open>self.latent_left_\<close> and
  handles NameError only. In the \<^verbatim>\<open>else\<close> branch the product with the stack is taken
  before \<^verbatim>\<open>self.latent_right_\<close> is read; a right factor that is Python's None is
  refused by numpy. The local \<^verbatim>\<open>scores\<close> is not used again: the method returns
  \<^verbatim>\<open>self._fit_transform(graphs)\<close> on the checked graphs.
\<close>

definition transform_scores :: "estimator \<Rightarrow> bool \<Rightarrow> matrix \<Rightarrow> pyobj \<Rightarrow> matrix list result" where
  "transform_scores self und L out =
     (case matmul_left (transpose_m L) out of
        Inl e \<Rightarrow> Inl e
      | Inr Ms \<Rightarrow>
          if \<not> und then
            (case getattr (latent_right' self) ''latent_right_'' of
               Inl e \<Rightarrow> Inl e
             | Inr None \<Rightarrow> Inl (ValueError ''matmul: operand does not have enough dimensions'')
             | Inr (Some R) \<Rightarrow> matmul_right Ms R)
          else matmul_right Ms L)"

definition MultipleASE_transform ::
  "collaborators \<Rightarrow> pyobj \<Rightarrow> estimator \<Rightarrow> matrix list result \<times> estimator" where
  "MultipleASE_transform env graphs self =
     (case BaseEmbedMulti_check_input_graphs env graphs self of
        (Inl e, s1) \<Rightarrow> (Inl e, s1)
      | (Inr out, s1) \<Rightarrow>
          (case all_result (is_almost_symmetric env) (graphs_of out) of
             Inl e \<Rightarrow> (Inl e, s1)
           | Inr und \<Rightarrow>
               (case getattr (undirected s1) ''undirected'' of
                  Inl e \<Rightarrow> (Inl e, s1)
                | Inr u \<Rightarrow>
                    if u \<noteq> und
                    then (Inl (TypeError ''The input graphs and the fitted graphs are not both undirected or directed.''), s1)
                    else
                      (case getattr (latent_left' s1) ''latent_left_'' of
                         Inl e \<Rightarrow>
                           (case e of
                              NameError msg \<Rightarrow> (Inl (NameError ''You need to fit this MASE first.''), s1)
                            | _ \<Rightarrow> (Inl e, s1))
                       | Inr L \<Rightarrow>
                           (case transform_scores s1 und L out of
                              Inl e \<Rightarrow> (Inl e, s1)
                            | Inr scores \<Rightarrow> MultipleASE_fit_transform env out s1)))))"

text \<open>\<^verbatim>\<open>MultipleASE.get_latent\<close>\<close>

definition get_latent :: "estimator \<Rightarrow> (matrix \<times> matrix option) result" where
  "get_latent self =
     (case getattr (latent_right' self) ''latent_right_'' of
        Inl e \<Rightarrow> Inl e
      | Inr None \<Rightarrow>
          (case getattr (latent_left' self) ''latent_left_'' of
             Inl e \<Rightarrow> Inl e
           | Inr L \<Rightarrow> Inr (L, None))
      | Inr (Some R) \<Rightarrow>
          (case getattr (latent_left' self) ''latent_left_'' of
             Inl e \<Rightarrow> Inl e
           | Inr L \<Rightarrow> Inr (L, Some R)))"

section \<open>\<^verbatim>\<open>ClassicalMDS\<close> (\<^verbatim>\<open>mds.py\<close>)\<close>

text \<open>\<^verbatim>\<open>c * A\<close> for a scalar \<open>c\<close>\<close>

definition scalar_times :: "real \<Rightarrow> matrix \<Rightarrow> matrix" where
  "scalar_times c A = map_matrix (\<lambda>x. c * x) A"

text \<open>\<^verbatim>\<open>_get_centering_matrix\<close>; Python's \<^verbatim>\<open>1 / n\<close> raises for \<open>n = 0\<close>.\<close>

definition get_centering_matrix :: "nat \<Rightarrow> matrix result" where
  "get_centering_matrix n =
     (if n = 0 then Inl (ZeroDivisionError ''division by zero'')
      else Inr (minus_matrix (identity n) (scalar_times (1 / real n) (ones n n))))"

text \<open>The instance: the constructor's parameters and the attributes of \<^verbatim>\<open>fit\<close>
  (\<open>components'\<close> is \<^verbatim>\<open>components_\<close>).\<close>

record mds =
  mds_n_components :: "int option"
  dissimilarity :: string
  mds_n_components' :: "nat option"
  components' :: "matrix option"
  mds_singular_values' :: "real list option"
  dissimilarity_matrix' :: "matrix option"

text \<open>\<^verbatim>\<open>ClassicalMDS.__init__\<close>; \<open>n_components\<close> is an int by its type.\<close>

definition ClassicalMDS_init :: "int option \<Rightarrow> string \<Rightarrow> mds result" where
  "ClassicalMDS_init nc dis =
     (if nc \<noteq> None \<and> the nc \<le> 0 then Inl (ValueError ''n_components must be >= 1 or None.'')
      else if dis \<noteq> ''euclidean'' \<and> dis \<noteq> ''precomputed''
      then Inl (ValueError ''Dissimilarity measure must be either euclidean or precomputed.'')
      else Inr \<lparr>mds_n_components = nc, dissimilarity = dis, mds_n_components' = None,
                components' = None, mds_singular_values' = None,
                dissimilarity_matrix' = None\<rparr>)"

text \<open>\<^verbatim>\<open>np.linalg.norm\<close> of a vector (order 2) or of a matrix (Frobenius), on the
  flattened entries.\<close>

definition norm2 :: "real list \<Rightarrow> real" where
  "norm2 xs = sqrt (sum_list (map (\<lambda>x. \<bar>x\<bar> ^ 2) xs))"

text \<open>\<^verbatim>\<open>ClassicalMDS._compute_euclidean_distances\<close>: row \<open>i\<close> holds the norms of
  \<^verbatim>\<open>X - X[i]\<close> along the first axis.\<close>

definition samples :: "pyobj \<Rightarrow> real list list result" where
  "samples X =
     (case X of
        NdArray2 M \<Rightarrow> Inr (rows M)
      | NdArray3 Ms \<Rightarrow> Inr (map (\<lambda>M. concat (rows M)) Ms)
      | _ \<Rightarrow> Inl (AttributeError ''shape''))"

definition compute_euclidean_distances :: "pyobj \<Rightarrow> matrix result" where
  "compute_euclidean_distances X =
     (case samples X of
        Inl e \<Rightarrow> Inl e
      | Inr xs \<Rightarrow>
          Inr (Matrix (length xs) (length xs)
                 (map (\<lambda>xi. map (\<lambda>xj. norm2 (map2 (-) xj xi)) xs) xs)))"

text \<open>\<^verbatim>\<open>X.shape[0]\<close>\<close>

definition shape0 :: "pyobj \<Rightarrow> nat" where
  "shape0 X = (case X of NdArray2 M \<Rightarrow> nrows M | NdArray3 Ms \<Rightarrow> length Ms | _ \<Rightarrow> 0)"

definition is_ndarray :: "pyobj \<Rightarrow> bool" where
  "is_ndarray X = (case X of NdArray2 M \<Rightarrow> True | NdArray3 Ms \<Rightarrow> True | _ \<Rightarrow> False)"

text \<open>The dissimilarity matrix of \<^verbatim>\<open>fit\<close>. With a \<^verbatim>\<open>dissimilarity\<close> that is neither
  of the two strings no branch binds the local, and its first use raises
  UnboundLocalError, a NameError.\<close>

definition dissimilarity_of :: "collaborators \<Rightarrow> mds \<Rightarrow> pyobj \<Rightarrow> matrix result" where
  "dissimilarity_of env self X =
     (if dissimilarity self = ''precomputed'' then
        (case check_array_2d env X of
           Inl e \<Rightarrow> Inl e
         | Inr dissimilarity_matrix \<Rightarrow>
             (case is_symmetric env dissimilarity_matrix of
                Inl e \<Rightarrow> Inl e
              | Inr symm \<Rightarrow>
                  if \<not> symm
                  then Inl (ValueError ''X must be a symmetric array if precomputed dissimilarity matrix.'')
                  else Inr dissimilarity_matrix))
      else if dissimilarity self = ''euclidean'' then
        (case check_array_nd env X of
           Inl e \<Rightarrow> Inl e
         | Inr X' \<Rightarrow> compute_euclidean_distances X')
      else Inl (NameError ''local variable dissimilarity_matrix referenced before assignment''))"

text \<open>\<^verbatim>\<open>B = J @ (dissimilarity_matrix ** 2) @ J * -0.5\<close>: the operators associate to
  the left.\<close>

definition double_center :: "matrix \<Rightarrow> matrix result" where
  "double_center dissimilarity_matrix =
     (case get_centering_matrix (nrows dissimilarity_matrix) of
        Inl e \<Rightarrow> Inl e
      | Inr J \<Rightarrow>
          (case matmul J (map_matrix (\<lambda>x. x ^ 2) dissimilarity_matrix) of
             Inl e \<Rightarrow> Inl e
           | Inr JD \<Rightarrow>
               (case matmul JD J of
                  Inl e \<Rightarrow> Inl e
                | Inr JDJ \<Rightarrow> Inr (scale_matrix JDJ (- 0.5)))))"

text \<open>\<^verbatim>\<open>ClassicalMDS.fit\<close>; \<^verbatim>\<open>D ** 0.5\<close> is the square root of each singular value.\<close>

definition ClassicalMDS_fit :: "collaborators \<Rightarrow> pyobj \<Rightarrow> mds \<Rightarrow> unit result \<times> mds" where
  "ClassicalMDS_fit env X self =
     (if \<not> is_ndarray X then (Inl (ValueError ''X must be a numpy array''), self)
      else if mds_n_components self \<noteq> None \<and> the (mds_n_components self) > int (shape0 X)
      then (Inl (ValueError ''n_components must be <= n_samples.''), self)
      else
        (case dissimilarity_of env self X of
           Inl e \<Rightarrow> (Inl e, self)
         | Inr dissimilarity_matrix \<Rightarrow>
             (case double_center dissimilarity_matrix of
                Inl e \<Rightarrow> (Inl e, self)
              | Inr B \<Rightarrow>
                  (case selectSVD env B (mds_n_components self) None
                          (if mds_n_components self = Some 1 then ''full'' else ''randomized'')
                          None of
                     Inl e \<Rightarrow> (Inl e, self)
                   | Inr (U, D, V) \<Rightarrow>
                       (Inr (), self\<lparr>mds_n_components' := Some (length D),
                                     components' := Some U,
                                     mds_singular_values' := Some (map sqrt D),
                                     dissimilarity_matrix' := Some dissimilarity_matrix\<rparr>)))))"

text \<open>\<^verbatim>\<open>ClassicalMDS.fit_transform\<close>\<close>

definition ClassicalMDS_fit_transform :: "collaborators \<Rightarrow> pyobj \<Rightarrow> mds \<Rightarrow> matrix result \<times> mds" where
  "ClassicalMDS_fit_transform env X self =
     (case ClassicalMDS_fit env X self of
        (Inl e, s) \<Rightarrow> (Inl e, s)
      | (Inr u, s) \<Rightarrow>
          (case getattr (components' s) ''components_'' of
             Inl e \<Rightarrow> (Inl e, s)
           | Inr C \<Rightarrow>
               (case getattr (mds_singular_values' s) ''singular_values_'' of
                  Inl e \<Rightarrow> (Inl e, s)
                | Inr sv \<Rightarrow> (matmul C (diag sv), s))))"

section \<open>Statements of the specification, and collaborators for closed instances\<close>

text \<open>The score matrix of one graph as the specification writes it:
  \<open>L\<^sup>T \<cdot> G \<cdot> R\<close>.\<close>

definition score_of :: "matrix \<Rightarrow> matrix \<Rightarrow> matrix \<Rightarrow> matrix result" where
  "score_of L G R =
     (case matmul (transpose_m L) G of
        Inl e \<Rightarrow> Inl e
      | Inr M \<Rightarrow> matmul M R)"

text \<open>
  Modelled from the spec: \<^verbatim>\<open>utils.is_almost_symmetric\<close> is not among the source files.
  ``Near-symmetric means max absolute entrywise difference between the matrix and its
  transpose is below a small fixed tolerance.'' A matrix that is not square has no such
  comparison with its transpose.
\<close>

definition near_symmetric :: "real \<Rightarrow> matrix \<Rightarrow> bool result" where
  "near_symmetric tol A =
     (if nrows A \<noteq> ncols A then Inl (ValueError ''operands could not be broadcast together'')
      else Inr (list_all (\<lambda>(x, y). \<bar>x - y\<bar> < tol)
                  (zip (concat (rows A)) (concat (rows (transpose_m A))))))"

text \<open>
  A solver for closed instances. A matrix of rank 1 is \<open>c \<cdot> r\<^sup>T / a\<close> for its first
  non-zero row \<open>r\<close>, the first non-zero entry \<open>a\<close> of that row and the column \<open>c\<close>
  through that entry; its singular value decomposition of rank 1 is then
  \<open>(c / \<parallel>c\<parallel>, [\<parallel>X\<parallel>], sgn a \<cdot> r / \<parallel>r\<parallel>)\<close>, with the Frobenius norm of the matrix as
  the singular value. The solver returns this triple, and refuses a request for
  another rank and a matrix of zeros.
\<close>

definition first_nonzero_row :: "real list list \<Rightarrow> nat" where
  "first_nonzero_row rs = length (takeWhile (list_all (\<lambda>x. x = 0)) rs)"

definition sample_selectSVD ::
  "matrix \<Rightarrow> int option \<Rightarrow> int option \<Rightarrow> string \<Rightarrow> int option
     \<Rightarrow> (matrix \<times> real list \<times> matrix) result" where
  "sample_selectSVD X nc ne alg ni =
     (if nc \<noteq> Some 1 \<or> list_all (list_all (\<lambda>x. x = 0)) (rows X)
      then Inl (ValueError ''sample solver: rank 1 only'')
      else
        (let r = rows X ! first_nonzero_row (rows X);
             j = length (takeWhile (\<lambda>x. x = 0) r);
             c = column X j;
             a = r ! j
         in Inr (Matrix (nrows X) 1 (map (\<lambda>x. [x / norm2 c]) c),
                 [norm2 (concat (rows X))],
                 Matrix 1 (ncols X) [map (\<lambda>x. sgn a * x / norm2 r) r])))"

text \<open>The product \<open>U \<cdot> diag(D) \<cdot> V\<close> of a triple, to compare with the matrix that
  was decomposed.\<close>

definition reconstruct :: "matrix \<times> real list \<times> matrix \<Rightarrow> matrix result" where
  "reconstruct emb =
     (case emb of (U, D, V) \<Rightarrow>
        (case matmul U (diag D) of Inl e \<Rightarrow> Inl e | Inr UD \<Rightarrow> matmul UD V))"

text \<open>A stand-in for \<^verbatim>\<open>select_dimension\<close> in closed instances: it reports the first
  \<open>n_elbows\<close> positions of the spectrum (counted from 1) as elbows.\<close>

definition sample_select_dimension :: "real list \<Rightarrow> int \<Rightarrow> (real list \<times> real list) result" where
  "sample_select_dimension D n =
     (let k = min (nat n) (length D)
      in Inr (map real [1..<Suc k], replicate k 0))"

text \<open>The ingestion of closed instances accepts a square array as it is.\<close>

definition sample_import_graph :: "matrix \<Rightarrow> matrix result" where
  "sample_import_graph g =
     (if nrows g \<noteq> ncols g then Inl (ValueError ''Matrix is not square'') else Inr g)"

definition sample_env :: collaborators where
  "sample_env =
     \<lparr>import_graph = sample_import_graph,
      import_graph3 = map_result sample_import_graph,
      is_almost_symmetric = near_symmetric (1 / 10 ^ 15),
      is_symmetric = near_symmetric (1 / 10 ^ 15),
      selectSVD = sample_selectSVD,
      select_dimension = sample_select_dimension,
      check_array_2d = (\<lambda>X. case X of NdArray2 M \<Rightarrow> Inr M
                                 | _ \<Rightarrow> Inl (ValueError ''Found array with dim 3. Estimator expected <= 2.'')),
      check_array_nd = (\<lambda>X. Inr X)\<rparr>"

text \<open>Two graphs on two vertices, each with one loop, and one on three vertices.\<close>

definition G1 :: matrix where
  "G1 = Matrix 2 2 [[1, 0], [0, 0]]"

definition G2 :: matrix where
  "G2 = Matrix 2 2 [[0, 0], [0, 1]]"

definition G3 :: matrix where
  "G3 = Matrix 3 3 [[1, 0, 0], [0, 0, 0], [0, 0, 0]]"

definition mase1 :: estimator where
  "mase1 = MultipleASE_init (Some 1) 2 ''randomized'' 5 False"

definition G4 :: matrix where
  "G4 = Matrix 2 2 [[0, 1], [0, 0]]"

text \<open>The instance after \<^verbatim>\<open>fit\<close> on two copies of \<open>G1\<close>, and after
  \<^verbatim>\<open>fit\<close> on two copies of \<open>G2\<close>.\<close>

definition fitted1 :: estimator where
  "fitted1 = mase1\<lparr>n_graphs' := Some 2, n_vertices' := Some 2, undirected := Some True,
     latent_left' := Some (Matrix 2 1 [[1], [0]]), latent_right' := Some None,
     scores' := Some [Matrix 1 1 [[1]], Matrix 1 1 [[1]]]\<rparr>"

definition fitted2 :: estimator where
  "fitted2 = mase1\<lparr>n_graphs' := Some 2, n_vertices' := Some 2, undirected := Some True,
     latent_left' := Some (Matrix 2 1 [[0], [1]]), latent_right' := Some None,
     scores' := Some [Matrix 1 1 [[1]], Matrix 1 1 [[1]]]\<rparr>"

text \<open>The instance after the single-graph reduction of \<open>G4\<close>.\<close>

definition embedded4 :: estimator where
  "embedded4 = mase1\<lparr>n_components' := Some 1, singular_values' := Some [1],
     latent_left' := Some (Matrix 2 1 [[1], [0]]),
     latent_right' := Some (Some (Matrix 2 1 [[0], [1]]))\<rparr>"

text \<open>A dissimilarity matrix of two points at distance 2, a \<^verbatim>\<open>ClassicalMDS\<close> with
  \<open>n_components = 1\<close> on precomputed dissimilarities, and that instance after
  \<^verbatim>\<open>fit\<close> on the matrix.\<close>

definition D2 :: matrix where
  "D2 = Matrix 2 2 [[0, 2], [2, 0]]"

definition mds1 :: mds where
  "mds1 = \<lparr>mds_n_components = Some 1, dissimilarity = ''precomputed'', mds_n_components' = None,
           components' = None, mds_singular_values' = None, dissimilarity_matrix' = None\<rparr>"

definition fitted_mds :: mds where
  "fitted_mds = mds1\<lparr>mds_n_components' := Some 1,
           components' := Some (Matrix 2 1 [[1 / sqrt 2], [- (1 / sqrt 2)]]),
           mds_singular_values' := Some [sqrt 2],
           dissimilarity_matrix' := Some D2\<rparr>"

text \<open>
  A second solver for closed instances, for a matrix whose columns have at most one
  non-zero entry each and whose non-zero rows, in order, have non-increasing norms.
  The rows of such a matrix are pairwise orthogonal, so with \<open>r\<^sub>i\<close> its \<open>i\<close>-th
  non-zero row, at index \<open>p\<^sub>i\<close>, the matrix is \<open>\<Sum> \<parallel>r\<^sub>i\<parallel> \<cdot> e\<^bsub>p\<^sub>i\<^esub> \<cdot> (r\<^sub>i / \<parallel>r\<^sub>i\<parallel>)\<^sup>T\<close>: a
  singular value decomposition. The solver returns its first \<open>k\<close> triples, for the
  rank \<open>k\<close> requested or, when \<open>n_components\<close> is None, for the last elbow of the
  selector below on the norms; it refuses any other matrix and a rank above the number
  of non-zero rows.

  The selector is a stand-in for \<^verbatim>\<open>select_dimension\<close>: position \<open>k\<close> (counted from
  1) is an elbow when the next value is at most half of the \<open>k\<close>-th, the spectrum being
  followed by 0; it reports the first \<open>n_elbows\<close> of them.
\<close>

definition nonzero_rows :: "real list list \<Rightarrow> nat list" where
  "nonzero_rows rs = filter (\<lambda>i. \<not> list_all (\<lambda>x. x = 0) (rs ! i)) [0..<length rs]"

definition orthogonal_rows :: "matrix \<Rightarrow> bool" where
  "orthogonal_rows X =
     list_all (\<lambda>j. length (filter (\<lambda>x. x \<noteq> 0) (column X j)) \<le> 1) [0..<ncols X]"

definition gap_select_dimension :: "real list \<Rightarrow> int \<Rightarrow> (real list \<times> real list) result" where
  "gap_select_dimension D n =
     (let ks = filter (\<lambda>k. 2 * ((D @ [0]) ! k) \<le> D ! (k - 1)) [1..<Suc (length D)];
          es = take (nat n) ks
      in Inr (map real es, replicate (length es) 0))"

definition rows_selectSVD ::
  "matrix \<Rightarrow> int option \<Rightarrow> int option \<Rightarrow> string \<Rightarrow> int option
     \<Rightarrow> (matrix \<times> real list \<times> matrix) result" where
  "rows_selectSVD X nc ne alg ni =
     (let idx = nonzero_rows (rows X);
          norms = map (\<lambda>i. norm2 (rows X ! i)) idx
      in if \<not> orthogonal_rows X \<or> \<not> sorted_wrt (\<ge>) norms
         then Inl (ValueError ''sample solver: orthogonal rows in descending order of norm only'')
         else
           (case (case nc of
                    Some k \<Rightarrow> Inr k
                  | None \<Rightarrow>
                      (case gap_select_dimension norms (case ne of None \<Rightarrow> 2 | Some e \<Rightarrow> e) of
                         Inl e \<Rightarrow> Inl e
                       | Inr (elbows, likelihoods) \<Rightarrow>
                           if elbows = [] then Inl (ValueError ''sample solver: no elbow'')
                           else Inr \<lceil>last elbows\<rceil>)) of
              Inl e \<Rightarrow> Inl e
            | Inr k \<Rightarrow>
                if k < 0 \<or> length idx < nat k
                then Inl (ValueError ''sample solver: rank out of range'')
                else
                  (let sel = take (nat k) idx
                   in Inr (Matrix (nrows X) (nat k)
                             (map (\<lambda>i. map (\<lambda>j. if i = j then 1 else 0) sel) [0..<nrows X]),
                           map (\<lambda>i. norm2 (rows X ! i)) sel,
                           Matrix (nat k) (ncols X)
                             (map (\<lambda>i. map (\<lambda>x. x / norm2 (rows X ! i)) (rows X ! i)) sel)))))"

definition diag_env :: collaborators where
  "diag_env = sample_env\<lparr>selectSVD := rows_selectSVD, select_dimension := gap_select_dimension\<rparr>"

text \<open>Two graphs of five vertices with loops of weights \<open>4, 2, 1\<close> and \<open>4, 3, 2\<close>,
  an instance with \<open>n_components\<close> left to the selector, and what \<^verbatim>\<open>fit\<close> computes on
  them: the first-stage basis, the stacked matrix, the instance handed to
  \<^verbatim>\<open>_reduce_dim\<close> and the fitted instance.\<close>

definition A5 :: matrix where
  "A5 = Matrix 5 5 [[4, 0, 0, 0, 0], [0, 2, 0, 0, 0], [0, 0, 1, 0, 0], [0, 0, 0, 0, 0], [0, 0, 0, 0, 0]]"

definition B5 :: matrix where
  "B5 = Matrix 5 5 [[4, 0, 0, 0, 0], [0, 3, 0, 0, 0], [0, 0, 2, 0, 0], [0, 0, 0, 0, 0], [0, 0, 0, 0, 0]]"

definition mase_auto :: estimator where
  "mase_auto = MultipleASE_init None 2 ''randomized'' 5 False"

definition E53 :: matrix where
  "E53 = Matrix 5 3 [[1, 0, 0], [0, 1, 0], [0, 0, 1], [0, 0, 0], [0, 0, 0]]"

definition Us5 :: matrix where
  "Us5 = Matrix 5 6 [[1, 0, 0, 1, 0, 0], [0, 1, 0, 0, 1, 0], [0, 0, 1, 0, 0, 1],
                     [0, 0, 0, 0, 0, 0], [0, 0, 0, 0, 0, 0]]"

definition Vt5 :: matrix where
  "Vt5 = Matrix 3 5 [[1, 0, 0, 0, 0], [0, 1, 0, 0, 0], [0, 0, 1, 0, 0]]"

definition checked_auto :: estimator where
  "checked_auto = mase_auto\<lparr>n_graphs' := Some 2, n_vertices' := Some 5, undirected := Some True\<rparr>"

definition fitted_auto :: estimator where
  "fitted_auto = mase_auto\<lparr>n_graphs' := Some 2, n_vertices' := Some 5, undirected := Some True,
     latent_left' := Some E53, latent_right' := Some None,
     scores' := Some [Matrix 3 3 [[4, 0, 0], [0, 2, 0], [0, 0, 1]],
                      Matrix 3 3 [[4, 0, 0], [0, 3, 0], [0, 0, 2]]]\<rparr>"

text \<open>Two graphs of four vertices, with loops of weights \<open>3, 1\<close> on the first two
  and on the last two vertices, an instance with \<open>n_components = 3\<close>, and what
  \<^verbatim>\<open>fit\<close> computes on them.\<close>

definition A4 :: matrix where
  "A4 = Matrix 4 4 [[3, 0, 0, 0], [0, 1, 0, 0], [0, 0, 0, 0], [0, 0, 0, 0]]"

definition B4 :: matrix where
  "B4 = Matrix 4 4 [[0, 0, 0, 0], [0, 0, 0, 0], [0, 0, 3, 0], [0, 0, 0, 1]]"

definition mase3 :: estimator where
  "mase3 = MultipleASE_init (Some 3) 2 ''randomized'' 5 False"

definition E42a :: matrix where
  "E42a = Matrix 4 2 [[1, 0], [0, 1], [0, 0], [0, 0]]"

definition E42b :: matrix where
  "E42b = Matrix 4 2 [[0, 0], [0, 0], [1, 0], [0, 1]]"

definition I4 :: matrix where
  "I4 = Matrix 4 4 [[1, 0, 0, 0], [0, 1, 0, 0], [0, 0, 1, 0], [0, 0, 0, 1]]"

definition E43 :: matrix where
  "E43 = Matrix 4 3 [[1, 0, 0], [0, 1, 0], [0, 0, 1], [0, 0, 0]]"

definition checked3 :: estimator where
  "checked3 = mase3\<lparr>n_graphs' := Some 2, n_vertices' := Some 4, undirected := Some True\<rparr>"

definition fitted3 :: estimator where
  "fitted3 = mase3\<lparr>n_graphs' := Some 2, n_vertices' := Some 4, undirected := Some True,
     latent_left' := Some E43, latent_right' := Some None,
     scores' := Some [Matrix 3 3 [[3, 0, 0], [0, 1, 0], [0, 0, 0]],
                      Matrix 3 3 [[0, 0, 0], [0, 0, 0], [0, 0, 3]]]\<rparr>"

section \<open>Evaluation and general lemmas\<close>

lemmas np_defs = transpose_m_def column_def matmul_def dot_def hstack_def slice_cols_def py_take_def diag_def
   map_matrix_def identity_def ones_def minus_matrix_def scale_matrix_def scalar_times_def

lemmas sample_defs = sample_env_def sample_selectSVD_def sample_import_graph_def near_symmetric_def
   first_nonzero_row_def norm2_def sample_select_dimension_def G1_def G2_def G3_def G4_def mase1_def MultipleASE_init_def

lemmas mase_defs = MultipleASE_fit_def BaseEmbedMulti_check_input_graphs_def MultipleASE_reduce_dim_def
   stacked_matrices_def first_stage_def first_stage_rank_def best_dimension_def last_elbow_def truncate_basis_def
   stack_bases_def left_factors_def right_factors_def spectrum_def second_stage_def project_def matmul_left_def matmul_right_def
   as_tensor_def getattr_def shape_def

lemmas transform_defs = MultipleASE_transform_def transform_scores_def
  MultipleASE_fit_transform_def BaseEmbed_fit_transform_impl_def

lemma map_result_Inr_iff:
  "map_result f xs = Inr ys \<longleftrightarrow>
     length ys = length xs \<and> (\<forall>i<length xs. f (xs ! i) = Inr (ys ! i))"
proof (induction xs arbitrary: ys)
  case Nil
  show ?case by auto
next
  case (Cons x xs)
  show ?case
  proof (cases "f x")
    case (Inl e)
    then show ?thesis by (cases ys) auto
  next
    case (Inr y)
    note fx = this
    show ?thesis
    proof (cases "map_result f xs")
      case (Inl e)
      { assume a: "length ys = length (x # xs) \<and> (\<forall>i<length (x # xs). f ((x # xs) ! i) = Inr (ys ! i))"
        then obtain z zs where ys: "ys = z # zs" by (cases ys) auto
        from a ys have "length zs = length xs \<and> (\<forall>i<length xs. f (xs ! i) = Inr (zs ! i))"
          by fastforce
        with Cons.IH [of zs] Inl have False by simp }
      with fx Inl show ?thesis by auto
    next
      case (Inr ys')
      show ?thesis
      proof (cases ys)
        case Nil
        with fx Inr show ?thesis by simp
      next
        case (Cons z zs)
        have "(\<forall>i<Suc (length xs). f ((x # xs) ! i) = Inr ((z # zs) ! i)) \<longleftrightarrow>
              f x = Inr z \<and> (\<forall>i<length xs. f (xs ! i) = Inr (zs ! i))"
          by (auto simp: nth_Cons split: nat.splits)
        with fx Inr Cons Cons.IH [of zs] show ?thesis by auto
      qed
    qed
  qed
qed

lemma map_result_length: "map_result f xs = Inr ys \<Longrightarrow> length ys = length xs"
  by (simp add: map_result_Inr_iff)

lemma all_result_Inr:
  "all_result p xs = Inr b \<Longrightarrow> b = (\<forall>x\<in>set xs. p x = Inr True)"
  by (induction xs) (auto split: sum.splits if_splits)

lemma all_result_total:
  "\<forall>x\<in>set xs. \<exists>b. p x = Inr b \<Longrightarrow> all_result p xs = Inr (\<forall>x\<in>set xs. p x = Inr True)"
  by (induction xs) (auto split: sum.splits)

lemma check_input_graphs_Inr:
  assumes "BaseEmbedMulti_check_input_graphs env graphs self = (Inr out, s1)"
  shows "graphs_of out \<noteq> [] \<and>
         s1 = self\<lparr>n_graphs' := Some (length (graphs_of out)),
                   n_vertices' := Some (nrows (hd (graphs_of out)))\<rparr> \<and>
         (\<exists>gs. out = PyList gs \<or> out = NdArray3 gs)"
  using assms
  by (auto simp: BaseEmbedMulti_check_input_graphs_def Let_def
           split: pyobj.splits sum.splits if_splits list.splits)

lemma check_input_graphs_frame:
  assumes "BaseEmbedMulti_check_input_graphs env graphs self = (r, s1)"
  shows "undirected s1 = undirected self \<and> latent_left' s1 = latent_left' self \<and>
         latent_right' s1 = latent_right' self \<and> scores' s1 = scores' self"
  using assms
  by (auto simp: BaseEmbedMulti_check_input_graphs_def Let_def
           split: pyobj.splits sum.splits if_splits list.splits)

lemma fit_success:
  assumes "MultipleASE_fit env graphs self = (Inr u, s')"
  shows "\<exists>out s1 und Uhat Vhat R.
     BaseEmbedMulti_check_input_graphs env graphs self = (Inr out, s1) \<and>
     all_result (is_almost_symmetric env) (graphs_of out) = Inr und \<and>
     MultipleASE_reduce_dim env (s1\<lparr>undirected := Some und\<rparr>) (graphs_of out) = Inr (Uhat, Vhat) \<and>
     project Uhat out (if und then Uhat else Vhat) = Inr R \<and>
     s' = s1\<lparr>undirected := Some und, latent_left' := Some Uhat,
             latent_right' := Some (if und then None else Some Vhat), scores' := Some R\<rparr>"
  using assms
  by (auto simp: MultipleASE_fit_def Let_def split: prod.splits sum.splits if_splits)

lemma project_Inr:
  assumes "project L out R = Inr Ms" and "out = PyList gs \<or> out = NdArray3 gs"
  shows "length Ms = length gs \<and> (\<forall>i<length gs. score_of L (gs ! i) R = Inr (Ms ! i))"
proof -
  from assms obtain Ns where
    a: "as_tensor out = Inr gs" and
    b: "map_result (matmul (transpose_m L)) gs = Inr Ns" and
    c: "map_result (\<lambda>M. matmul M R) Ns = Inr Ms"
    by (auto simp: project_def matmul_left_def matmul_right_def as_tensor_def
             split: sum.splits list.splits if_splits)
  from b have lb: "length Ns = length gs" and
    nb: "\<forall>i<length gs. matmul (transpose_m L) (gs ! i) = Inr (Ns ! i)"
    by (simp_all add: map_result_Inr_iff)
  from c have lc: "length Ms = length Ns" and
    nc: "\<forall>i<length Ns. matmul (Ns ! i) R = Inr (Ms ! i)"
    by (simp_all add: map_result_Inr_iff)
  show ?thesis using lb nb lc nc by (simp add: score_of_def)
qed

text \<open>The converse of \<open>fit_success\<close>: when each step returns, so does \<^verbatim>\<open>fit\<close>.\<close>

lemma fit_returns:
  assumes "BaseEmbedMulti_check_input_graphs env graphs self = (Inr out, s1)"
    and "all_result (is_almost_symmetric env) (graphs_of out) = Inr und"
    and "MultipleASE_reduce_dim env (s1\<lparr>undirected := Some und\<rparr>) (graphs_of out) = Inr (Uhat, Vhat)"
    and "project Uhat out (if und then Uhat else Vhat) = Inr R"
  shows "MultipleASE_fit env graphs self =
           (Inr (), s1\<lparr>undirected := Some und, latent_left' := Some Uhat,
                       latent_right' := Some (if und then None else Some Vhat),
                       scores' := Some R\<rparr>)"
  using assms by (cases und) (simp_all add: MultipleASE_fit_def Let_def)

text \<open>The triples that the solver of the closed instances returns for \<open>G1\<close> and
  for the doubly centred matrix of \<open>D2\<close> multiply back to those matrices.\<close>

lemma sample_selectSVD_G1:
  "sample_selectSVD G1 (Some 1) None ''randomized'' (Some 5) =
     Inr (Matrix 2 1 [[1], [0]], [1], Matrix 1 2 [[1, 0]])"
  by (simp add: sample_defs column_def Let_def)

lemma reconstruct_G1: "reconstruct (Matrix 2 1 [[1], [0]], [1], Matrix 1 2 [[1, 0]]) = Inr G1"
  by (simp add: reconstruct_def G1_def matmul_def diag_def dot_def column_def upt_rec)

lemma reconstruct_B:
  "reconstruct (Matrix 2 1 [[1 / sqrt 2], [- (1 / sqrt 2)]], [2],
                Matrix 1 2 [[1 / sqrt 2, - (1 / sqrt 2)]]) =
     Inr (Matrix 2 2 [[1, - 1], [- 1, 1]])"
  by (simp add: reconstruct_def matmul_def diag_def dot_def column_def upt_rec)

lemma fit_G1: "MultipleASE_fit sample_env (PyList [G1, G1]) mase1 = (Inr (), fitted1)"
  by (simp add: fitted1_def mase_defs sample_defs np_defs upt_rec Let_def)

lemma fit_G2: "MultipleASE_fit sample_env (PyList [G2, G2]) fitted1 = (Inr (), fitted2)"
  by (simp add: fitted1_def fitted2_def mase_defs sample_defs np_defs upt_rec Let_def)

lemma transform_G2:
  "MultipleASE_transform sample_env (PyList [G2, G2]) fitted1 =
     (Inr [Matrix 1 1 [[1]], Matrix 1 1 [[1]]], fitted2)"
  by (simp add: fitted1_def fitted2_def transform_defs mase_defs sample_defs np_defs upt_rec Let_def)

lemma project_G2:
  "project (Matrix 2 1 [[1], [0]]) (PyList [G2, G2]) (Matrix 2 1 [[1], [0]]) =
     Inr [Matrix 1 1 [[0]], Matrix 1 1 [[0]]]"
  by (simp add: mase_defs G2_def np_defs upt_rec)

lemma check_G4:
  "BaseEmbedMulti_check_input_graphs sample_env (PyList [G4, G4]) fitted1 =
     (Inr (PyList [G4, G4]), fitted1)"
  by (simp add: BaseEmbedMulti_check_input_graphs_def sample_env_def sample_import_graph_def
        G4_def fitted1_def mase1_def MultipleASE_init_def Let_def)

lemma G4_not_symmetric: "is_almost_symmetric sample_env G4 = Inr False"
  by (simp add: sample_env_def near_symmetric_def G4_def transpose_m_def column_def upt_rec)

lemma max_list_Max: "xs \<noteq> [] \<Longrightarrow> max_list xs = Max (set xs)"
proof (cases xs)
  case Nil
  assume "xs \<noteq> []"
  with Nil show ?thesis by simp
next
  case (Cons a as)
  have "max_list (a # as) = Max (set (a # as))"
    by (simp only: max_list.simps Max.set_eq_fold)
  with Cons show ?thesis by simp
qed

lemma ceillog2_ceiling: "0 < n \<Longrightarrow> int (ceillog2 n) = \<lceil>log 2 (real n)\<rceil>"
proof -
  assume "0 < n"
  then have "0 \<le> log 2 (real n)" by simp
  then have "0 \<le> \<lceil>log 2 (real n)\<rceil>" by linarith
  with \<open>0 < n\<close> show ?thesis by (simp add: ceillog2_def)
qed

lemma first_stage_Inr:
  assumes "first_stage env self gs = Inr embeddings" and "n_vertices' self = Some n"
  shows "0 < n \<and>
         map_result (\<lambda>g. selectSVD env g (Some \<lceil>log 2 (real n)\<rceil>) None (algorithm self)
                          (Some (n_iter self))) gs = Inr embeddings"
  using assms
  by (auto simp: first_stage_def first_stage_rank_def getattr_def ceillog2_ceiling
           split: if_splits)

lemma last_elbow_Inr:
  "last_elbow env self D = Inr x \<longleftrightarrow>
     (\<exists>elbows likelihoods. select_dimension env D (n_elbows self) = Inr (elbows, likelihoods) \<and>
         elbows \<noteq> [] \<and> x = last elbows)"
  by (auto simp: last_elbow_def split: sum.splits prod.splits if_splits)

lemma best_dimension_Inr:
  assumes "best_dimension env self Ds = Inr d"
  shows "case n_components self of
           Some c \<Rightarrow> d = c
         | None \<Rightarrow>
             (\<exists>es. length es = length Ds \<and> es \<noteq> [] \<and>
                (\<forall>i<length Ds. \<exists>elbows likelihoods.
                    select_dimension env (Ds ! i) (n_elbows self) = Inr (elbows, likelihoods) \<and>
                    elbows \<noteq> [] \<and> es ! i = last elbows) \<and>
                d = \<lceil>Max (set es)\<rceil>)"
proof (cases "n_components self")
  case (Some c)
  with assms show ?thesis by (simp add: best_dimension_def)
next
  case None
  with assms obtain es where
    es: "map_result (last_elbow env self) Ds = Inr es" and ne: "es \<noteq> []" and
    d: "d = \<lceil>max_list es\<rceil>"
    by (auto simp: best_dimension_def split: sum.splits if_splits)
  from es have len: "length es = length Ds" and
    each: "\<forall>i<length Ds. last_elbow env self (Ds ! i) = Inr (es ! i)"
    by (simp_all add: map_result_Inr_iff)
  from each have "\<forall>i<length Ds. \<exists>elbows likelihoods.
      select_dimension env (Ds ! i) (n_elbows self) = Inr (elbows, likelihoods) \<and>
      elbows \<noteq> [] \<and> es ! i = last elbows"
    by (simp add: last_elbow_Inr)
  moreover from d ne have "d = \<lceil>Max (set es)\<rceil>" by (simp add: max_list_Max)
  ultimately show ?thesis using None len ne by auto
qed

lemma stacked_matrices_Inr:
  assumes "stacked_matrices env self gs = Inr (Us, Vs)"
  shows "\<exists>embeddings d.
           first_stage env self gs = Inr embeddings \<and> embeddings \<noteq> [] \<and>
           best_dimension env self (map spectrum embeddings) = Inr d \<and>
           stack_bases (scaled self) d (left_factors embeddings) = Inr Us \<and>
           stack_bases (scaled self) d (right_factors embeddings) = Inr Vs"
  using assms
  by (auto simp: stacked_matrices_def split: sum.splits if_splits)

lemma hstack_Inr:
  assumes "hstack Bs = Inr M"
  shows "Bs \<noteq> [] \<and> nrows M = nrows (hd Bs) \<and> ncols M = sum_list (map ncols Bs) \<and>
         rows M = map (\<lambda>i. concat (map (\<lambda>B. rows B ! i) Bs)) [0..<nrows (hd Bs)]"
  using assms by (auto simp: hstack_def split: list.splits if_splits)

lemma length_py_take: "0 \<le> k \<Longrightarrow> length (py_take k xs) = min (nat k) (length xs)"
  by (simp add: py_take_def)

lemma truncate_basis_shape:
  assumes "truncate_basis sc d (U, D) = Inr B" and "0 \<le> d"
  shows "nrows B = nrows U \<and> ncols B = min (nat d) (ncols U)"
proof (cases sc)
  case False
  with assms show ?thesis
    by (auto simp: truncate_basis_def slice_cols_def length_py_take)
next
  case True
  with assms have m: "matmul (slice_cols d U) (diag (map sqrt (py_take d D))) = Inr B"
    by (simp add: truncate_basis_def)
  then have "ncols (slice_cols d U) = nrows (diag (map sqrt (py_take d D)))"
    by (auto simp: matmul_def split: if_splits)
  moreover from m have "nrows B = nrows (slice_cols d U)"
    and "ncols B = ncols (diag (map sqrt (py_take d D)))"
    by (auto simp: matmul_def split: if_splits)
  ultimately show ?thesis using assms(2)
    by (simp add: slice_cols_def diag_def length_py_take)
qed

lemma sum_list_all_equal:
  "\<forall>i<length xs. f (xs ! i) = c \<Longrightarrow> sum_list (map f xs) = length xs * (c::nat)"
proof (induction xs)
  case Nil
  show ?case by simp
next
  case (Cons x xs)
  from Cons.prems have "f x = c" by auto
  moreover from Cons.prems have "\<forall>i<length xs. f (xs ! i) = c" by auto
  ultimately show ?case using Cons.IH by simp
qed

lemma stack_bases_shape:
  assumes sb: "stack_bases sc d UDs = Inr M"
    and sh: "\<forall>i<length UDs. nrows (fst (UDs ! i)) = n \<and> ncols (fst (UDs ! i)) = r"
    and d: "0 \<le> d"
  shows "\<exists>Bs. length Bs = length UDs \<and>
           (\<forall>i<length UDs. truncate_basis sc d (UDs ! i) = Inr (Bs ! i)) \<and>
           hstack Bs = Inr M \<and> shape M = (n, length UDs * min (nat d) r)"
proof -
  from sb obtain Bs where
    mr: "map_result (truncate_basis sc d) UDs = Inr Bs" and hs: "hstack Bs = Inr M"
    by (auto simp: stack_bases_def split: sum.splits)
  from mr have len: "length Bs = length UDs" and
    each: "\<forall>i<length UDs. truncate_basis sc d (UDs ! i) = Inr (Bs ! i)"
    by (simp_all add: map_result_Inr_iff)
  have blk: "\<forall>i<length Bs. nrows (Bs ! i) = n \<and> ncols (Bs ! i) = min (nat d) r"
  proof (intro allI impI)
    fix i assume i: "i < length Bs"
    with len each have "truncate_basis sc d (fst (UDs ! i), snd (UDs ! i)) = Inr (Bs ! i)"
      by simp
    from truncate_basis_shape [OF this d] sh i len
    show "nrows (Bs ! i) = n \<and> ncols (Bs ! i) = min (nat d) r" by simp
  qed
  from hstack_Inr [OF hs] have ne: "Bs \<noteq> []" and
    nr: "nrows M = nrows (hd Bs)" and nc: "ncols M = sum_list (map ncols Bs)" by simp_all
  from ne blk have "nrows (hd Bs) = n" by (cases Bs) auto
  moreover from blk have "sum_list (map ncols Bs) = length Bs * min (nat d) r"
    by (intro sum_list_all_equal) simp
  ultimately have "shape M = (n, length UDs * min (nat d) r)"
    using nr nc len by (simp add: shape_def)
  with len each hs show ?thesis by blast
qed

section \<open>\<^verbatim>\<open>MultipleASE._reduce_dim\<close>\<close>

text \<open>The steps of a \<^verbatim>\<open>fit\<close> that returns, on graphs of \<open>n\<close> vertices.\<close>

lemma check_input_graphs_params:
  assumes "BaseEmbedMulti_check_input_graphs env graphs self = (r, s1)"
  shows "n_components s1 = n_components self \<and> n_elbows s1 = n_elbows self \<and>
         algorithm s1 = algorithm self \<and> n_iter s1 = n_iter self \<and> scaled s1 = scaled self"
  using assms
  by (auto simp: BaseEmbedMulti_check_input_graphs_def Let_def
           split: pyobj.splits sum.splits if_splits list.splits)

lemma reduce_dim_Inr:
  assumes "MultipleASE_reduce_dim env s gs = Inr (Uhat, Vhat)"
  shows "\<exists>Us Vs Du Vu Dv Vv.
           stacked_matrices env s gs = Inr (Us, Vs) \<and>
           selectSVD env Us (n_components s) (Some (n_elbows s)) (algorithm s) (Some (n_iter s)) =
             Inr (Uhat, Du, Vu) \<and>
           selectSVD env Vs (n_components s) (Some (n_elbows s)) (algorithm s) (Some (n_iter s)) =
             Inr (Vhat, Dv, Vv)"
  using assms
  by (auto simp: MultipleASE_reduce_dim_def second_stage_def split: sum.splits prod.splits)

lemma best_dimension_cong:
  assumes "n_components s = n_components t" and "n_elbows s = n_elbows t"
  shows "best_dimension env s Ds = best_dimension env t Ds"
proof -
  have "last_elbow env s = last_elbow env t"
    using assms(2) by (simp add: last_elbow_def fun_eq_iff)
  with assms(1) show ?thesis by (simp add: best_dimension_def split: option.splits)
qed

lemma stack_bases_blocks:
  assumes "stack_bases sc d UDs = Inr M"
  shows "\<exists>Bs. length Bs = length UDs \<and>
           (\<forall>i<length UDs. truncate_basis sc d (UDs ! i) = Inr (Bs ! i)) \<and> hstack Bs = Inr M"
proof -
  from assms obtain Bs where
    mr: "map_result (truncate_basis sc d) UDs = Inr Bs" and hs: "hstack Bs = Inr M"
    by (auto simp: stack_bases_def split: sum.splits)
  from mr have "length Bs = length UDs"
    and "\<forall>i<length UDs. truncate_basis sc d (UDs ! i) = Inr (Bs ! i)"
    by (simp_all add: map_result_Inr_iff)
  with hs show ?thesis by blast
qed

lemma fit_steps:
  assumes fit: "MultipleASE_fit env graphs self = (Inr (), s')"
    and chk: "BaseEmbedMulti_check_input_graphs env graphs self = (Inr out, s1)"
    and valid: "\<forall>g\<in>set (graphs_of out). nrows g = n"
  shows "\<exists>embeddings d Us Vs Uhat Du Vu Vhat Dv Vv.
     0 < n \<and>
     map_result (\<lambda>g. selectSVD env g (Some \<lceil>log 2 (real n)\<rceil>) None (algorithm self)
                      (Some (n_iter self))) (graphs_of out) = Inr embeddings \<and>
     embeddings \<noteq> [] \<and>
     best_dimension env self (map spectrum embeddings) = Inr d \<and>
     stack_bases (scaled self) d (left_factors embeddings) = Inr Us \<and>
     stack_bases (scaled self) d (right_factors embeddings) = Inr Vs \<and>
     selectSVD env Us (n_components self) (Some (n_elbows self)) (algorithm self)
       (Some (n_iter self)) = Inr (Uhat, Du, Vu) \<and>
     selectSVD env Vs (n_components self) (Some (n_elbows self)) (algorithm self)
       (Some (n_iter self)) = Inr (Vhat, Dv, Vv) \<and>
     latent_left' s' = Some Uhat"
proof -
  from fit_success [OF fit] chk obtain und Uhat Vhat R where
    red: "MultipleASE_reduce_dim env (s1\<lparr>undirected := Some und\<rparr>) (graphs_of out) = Inr (Uhat, Vhat)" and
    s': "s' = s1\<lparr>undirected := Some und, latent_left' := Some Uhat,
             latent_right' := Some (if und then None else Some Vhat), scores' := Some R\<rparr>"
    by auto
  let ?s2 = "s1\<lparr>undirected := Some und\<rparr>"
  from check_input_graphs_params [OF chk] have par:
    "n_components ?s2 = n_components self" "n_elbows ?s2 = n_elbows self"
    "algorithm ?s2 = algorithm self" "n_iter ?s2 = n_iter self" "scaled ?s2 = scaled self"
    by simp_all
  from check_input_graphs_Inr [OF chk] have ne: "graphs_of out \<noteq> []" and
    s1: "s1 = self\<lparr>n_graphs' := Some (length (graphs_of out)),
                   n_vertices' := Some (nrows (hd (graphs_of out)))\<rparr>"
    by simp_all
  from ne valid have "nrows (hd (graphs_of out)) = n" by (cases "graphs_of out") auto
  with s1 have nv: "n_vertices' ?s2 = Some n" by simp
  from reduce_dim_Inr [OF red] obtain Us Vs Du Vu Dv Vv where
    st: "stacked_matrices env ?s2 (graphs_of out) = Inr (Us, Vs)" and
    u: "selectSVD env Us (n_components ?s2) (Some (n_elbows ?s2)) (algorithm ?s2)
          (Some (n_iter ?s2)) = Inr (Uhat, Du, Vu)" and
    v: "selectSVD env Vs (n_components ?s2) (Some (n_elbows ?s2)) (algorithm ?s2)
          (Some (n_iter ?s2)) = Inr (Vhat, Dv, Vv)"
    by blast
  from stacked_matrices_Inr [OF st] obtain embeddings d where
    fs: "first_stage env ?s2 (graphs_of out) = Inr embeddings" and
    en: "embeddings \<noteq> []" and
    bd: "best_dimension env ?s2 (map spectrum embeddings) = Inr d" and
    l: "stack_bases (scaled ?s2) d (left_factors embeddings) = Inr Us" and
    r: "stack_bases (scaled ?s2) d (right_factors embeddings) = Inr Vs"
    by blast
  from first_stage_Inr [OF fs nv] have n: "0 < n" and
    m: "map_result (\<lambda>g. selectSVD env g (Some \<lceil>log 2 (real n)\<rceil>) None (algorithm ?s2)
                      (Some (n_iter ?s2))) (graphs_of out) = Inr embeddings"
    by simp_all
  have bd': "best_dimension env self (map spectrum embeddings) = Inr d"
    using bd best_dimension_cong [of ?s2 self env "map spectrum embeddings"] par by simp
  have ll: "latent_left' s' = Some Uhat" using s' by simp
  from n m en bd' l r u v ll par show ?thesis
    by (simp only: par) blast
qed

text \<open>The \<^verbatim>\<open>fit\<close> on the two graphs of five vertices, step by step.\<close>

lemma sqrt_values: "sqrt 16 = 4" "sqrt 9 = 3"
proof -
  have "sqrt (4 ^ 2) = 4" by (simp del: power2_eq_square)
  then show "sqrt 16 = 4" by simp
  have "sqrt (3 ^ 2) = 3" by (simp del: power2_eq_square)
  then show "sqrt 9 = 3" by simp
qed

lemmas diag_defs = diag_env_def rows_selectSVD_def gap_select_dimension_def nonzero_rows_def
  orthogonal_rows_def sample_env_def sample_import_graph_def near_symmetric_def norm2_def
  sqrt_values

lemma ceillog2_5: "ceillog2 5 = 3"
  by code_simp

lemma select_A5: "select_dimension diag_env [4, 2, 1] 2 = Inr ([1, 2], [0, 0])"
  by (simp add: diag_env_def gap_select_dimension_def upt_rec Let_def)

lemma select_B5: "select_dimension diag_env [4, 3, 2] 2 = Inr ([3], [0])"
  by (simp add: diag_env_def gap_select_dimension_def upt_rec Let_def)

lemma svd_A5':
  "selectSVD diag_env A5 (Some 3) None ''randomized'' (Some 5) =
     Inr (E53, [4, 2, 1], Matrix 3 5 [[1, 0, 0, 0, 0], [0, 1, 0, 0, 0], [0, 0, 1, 0, 0]])"
  by (simp add: diag_defs A5_def E53_def column_def upt_rec Let_def)

lemma svd_B5:
  "selectSVD diag_env B5 (Some 3) None ''randomized'' (Some 5) =
     Inr (E53, [4, 3, 2], Matrix 3 5 [[1, 0, 0, 0, 0], [0, 1, 0, 0, 0], [0, 0, 1, 0, 0]])"
  by (simp add: diag_defs B5_def E53_def column_def upt_rec Let_def)

lemma check_auto:
  "BaseEmbedMulti_check_input_graphs diag_env (PyList [A5, B5]) mase_auto =
     (Inr (PyList [A5, B5]), mase_auto\<lparr>n_graphs' := Some 2, n_vertices' := Some 5\<rparr>)"
proof -
  have "import_graph diag_env A5 = Inr A5" "import_graph diag_env B5 = Inr B5" "nrows A5 = 5"
    by (simp_all add: diag_env_def sample_env_def sample_import_graph_def A5_def B5_def)
  then show ?thesis
    by (simp add: BaseEmbedMulti_check_input_graphs_def Let_def)
qed

lemma symmetric_A5: "is_almost_symmetric diag_env A5 = Inr True"
  by (simp add: diag_env_def sample_env_def near_symmetric_def A5_def transpose_m_def column_def upt_rec)

lemma symmetric_B5: "is_almost_symmetric diag_env B5 = Inr True"
  by (simp add: diag_env_def sample_env_def near_symmetric_def B5_def transpose_m_def column_def upt_rec)

lemma checked_auto_fields:
  "n_vertices' checked_auto = Some 5" "n_components checked_auto = None"
  "n_elbows checked_auto = 2" "algorithm checked_auto = ''randomized''"
  "n_iter checked_auto = 5" "scaled checked_auto = False"
  by (simp_all add: checked_auto_def mase_auto_def MultipleASE_init_def)

lemma first_stage_auto:
  "first_stage diag_env checked_auto [A5, B5] = Inr [(E53, [4, 2, 1], Vt5), (E53, [4, 3, 2], Vt5)]"
  using svd_A5' svd_B5
  by (simp add: first_stage_def first_stage_rank_def getattr_def checked_auto_fields ceillog2_5 Vt5_def)

lemma best_dimension_auto:
  "best_dimension diag_env checked_auto [[4, 2, 1], [4, 3, 2]] = Inr 3"
  by (simp add: best_dimension_def last_elbow_def checked_auto_fields select_A5 select_B5)

lemma transpose_Vt5: "transpose_m Vt5 = E53"
  by (simp add: transpose_m_def column_def Vt5_def E53_def upt_rec)

lemma slice_E53: "slice_cols 3 E53 = E53"
  by (simp add: slice_cols_def py_take_def E53_def)

lemma hstack_E53: "hstack [E53, E53] = Inr Us5"
  by (simp add: hstack_def E53_def Us5_def upt_rec)

lemma stack_left_auto:
  "stack_bases False 3 (left_factors [(E53, [4, 2, 1], Vt5), (E53, [4, 3, 2], Vt5)]) = Inr Us5"
  by (simp add: stack_bases_def left_factors_def truncate_basis_def slice_E53 hstack_E53)

lemma stack_right_auto:
  "stack_bases False 3 (right_factors [(E53, [4, 2, 1], Vt5), (E53, [4, 3, 2], Vt5)]) = Inr Us5"
  by (simp add: stack_bases_def right_factors_def truncate_basis_def transpose_Vt5 slice_E53 hstack_E53)

lemma stacked_auto:
  "stacked_matrices diag_env checked_auto [A5, B5] = Inr (Us5, Us5)"
  by (simp add: stacked_matrices_def first_stage_auto spectrum_def best_dimension_auto
        checked_auto_fields stack_left_auto stack_right_auto)

lemma select_Us5: "gap_select_dimension [sqrt 2, sqrt 2, sqrt 2] 2 = Inr ([3], [0])"
  by (simp add: gap_select_dimension_def upt_rec Let_def)

lemma svd_Us5:
  "selectSVD diag_env Us5 None (Some 2) ''randomized'' (Some 5) =
     Inr (E53, [sqrt 2, sqrt 2, sqrt 2],
          Matrix 3 6 [[1 / sqrt 2, 0, 0, 1 / sqrt 2, 0, 0], [0, 1 / sqrt 2, 0, 0, 1 / sqrt 2, 0],
                      [0, 0, 1 / sqrt 2, 0, 0, 1 / sqrt 2]])"
proof -
  have idx: "nonzero_rows (rows Us5) = [0, 1, 2]"
    by (simp add: nonzero_rows_def Us5_def upt_rec)
  have orth: "orthogonal_rows Us5"
    by (simp add: orthogonal_rows_def Us5_def column_def upt_rec)
  have norms: "map (\<lambda>i. norm2 (rows Us5 ! i)) [0, 1, 2] = [sqrt 2, sqrt 2, sqrt 2]"
    by (simp add: norm2_def Us5_def)
  show ?thesis
    using norms
    apply (simp add: diag_env_def rows_selectSVD_def idx orth select_Us5 Let_def)
    apply (simp add: Us5_def E53_def norm2_def upt_rec)
    done
qed

lemma second_stage_auto: "second_stage diag_env checked_auto Us5 = Inr E53"
  by (simp add: second_stage_def checked_auto_fields svd_Us5)

lemma reduce_dim_auto: "MultipleASE_reduce_dim diag_env checked_auto [A5, B5] = Inr (E53, E53)"
  by (simp add: MultipleASE_reduce_dim_def stacked_auto second_stage_auto)

lemma project_auto:
  "project E53 (PyList [A5, B5]) E53 =
     Inr [Matrix 3 3 [[4, 0, 0], [0, 2, 0], [0, 0, 1]], Matrix 3 3 [[4, 0, 0], [0, 3, 0], [0, 0, 2]]]"
proof -
  have t: "transpose_m E53 = Vt5"
    by (simp add: transpose_m_def column_def Vt5_def E53_def upt_rec)
  have a: "matmul Vt5 A5 = Inr (Matrix 3 5 [[4, 0, 0, 0, 0], [0, 2, 0, 0, 0], [0, 0, 1, 0, 0]])"
    by (simp add: matmul_def dot_def column_def Vt5_def A5_def upt_rec)
  have b: "matmul Vt5 B5 = Inr (Matrix 3 5 [[4, 0, 0, 0, 0], [0, 3, 0, 0, 0], [0, 0, 2, 0, 0]])"
    by (simp add: matmul_def dot_def column_def Vt5_def B5_def upt_rec)
  have c: "matmul (Matrix 3 5 [[4, 0, 0, 0, 0], [0, 2, 0, 0, 0], [0, 0, 1, 0, 0]]) E53 =
             Inr (Matrix 3 3 [[4, 0, 0], [0, 2, 0], [0, 0, 1]])"
    by (simp add: matmul_def dot_def column_def E53_def upt_rec)
  have d: "matmul (Matrix 3 5 [[4, 0, 0, 0, 0], [0, 3, 0, 0, 0], [0, 0, 2, 0, 0]]) E53 =
             Inr (Matrix 3 3 [[4, 0, 0], [0, 3, 0], [0, 0, 2]])"
    by (simp add: matmul_def dot_def column_def E53_def upt_rec)
  have s: "shape B5 = shape A5" by (simp add: shape_def A5_def B5_def)
  show ?thesis
    by (simp add: project_def matmul_left_def matmul_right_def as_tensor_def t a b c d s)
qed

lemma fit_auto: "MultipleASE_fit diag_env (PyList [A5, B5]) mase_auto = (Inr (), fitted_auto)"
proof -
  have u: "all_result (is_almost_symmetric diag_env) (graphs_of (PyList [A5, B5])) = Inr True"
    by (simp add: symmetric_A5 symmetric_B5)
  have r: "MultipleASE_reduce_dim diag_env
             (mase_auto\<lparr>n_graphs' := Some 2, n_vertices' := Some 5\<rparr>\<lparr>undirected := Some True\<rparr>)
             (graphs_of (PyList [A5, B5])) = Inr (E53, E53)"
    using reduce_dim_auto by (simp add: checked_auto_def)
  have p: "project E53 (PyList [A5, B5]) (if True then E53 else E53) =
     Inr [Matrix 3 3 [[4, 0, 0], [0, 2, 0], [0, 0, 1]], Matrix 3 3 [[4, 0, 0], [0, 3, 0], [0, 0, 2]]]"
    using project_auto by simp
  from fit_returns [OF check_auto u r p] show ?thesis
    by (simp add: fitted_auto_def)
qed

lemma best_dimension_auto0:
  "best_dimension diag_env mase_auto [[4, 2, 1], [4, 3, 2]] = Inr 3"
  by (simp add: best_dimension_def last_elbow_def select_A5 select_B5 mase_auto_def
        MultipleASE_init_def)

text \<open>The \<^verbatim>\<open>fit\<close> on the two graphs of four vertices, step by step.\<close>

lemma ceillog2_4: "ceillog2 4 = 2"
  by code_simp

lemma rows_selectSVD_shape:
  assumes "rows_selectSVD X (Some k) ne alg ni = Inr (U, D, V)"
  shows "nrows U = nrows X \<and> ncols U = nat k \<and> nrows V = nat k \<and> ncols V = ncols X"
  using assms by (auto simp: rows_selectSVD_def Let_def split: if_splits)

lemma checked3_fields:
  "n_vertices' checked3 = Some 4" "n_components checked3 = Some 3"
  "n_elbows checked3 = 2" "algorithm checked3 = ''randomized''"
  "n_iter checked3 = 5" "scaled checked3 = False"
  by (simp_all add: checked3_def mase3_def MultipleASE_init_def)

lemma svd_A4:
  "selectSVD diag_env A4 (Some 2) None ''randomized'' (Some 5) =
     Inr (E42a, [3, 1], Matrix 2 4 [[1, 0, 0, 0], [0, 1, 0, 0]])"
  by (simp add: diag_defs A4_def E42a_def column_def upt_rec Let_def)

lemma svd_B4:
  "selectSVD diag_env B4 (Some 2) None ''randomized'' (Some 5) =
     Inr (E42b, [3, 1], Matrix 2 4 [[0, 0, 1, 0], [0, 0, 0, 1]])"
  by (simp add: diag_defs B4_def E42b_def column_def upt_rec Let_def)

text \<open>The two triples multiply back to the graphs.\<close>

lemma reconstruct_A4:
  "reconstruct (E42a, [3, 1], Matrix 2 4 [[1, 0, 0, 0], [0, 1, 0, 0]]) = Inr A4"
  by (simp add: reconstruct_def E42a_def A4_def matmul_def diag_def dot_def column_def upt_rec)

lemma reconstruct_B4:
  "reconstruct (E42b, [3, 1], Matrix 2 4 [[0, 0, 1, 0], [0, 0, 0, 1]]) = Inr B4"
  by (simp add: reconstruct_def E42b_def B4_def matmul_def diag_def dot_def column_def upt_rec)

lemma check_mase3:
  "BaseEmbedMulti_check_input_graphs diag_env (PyList [A4, B4]) mase3 =
     (Inr (PyList [A4, B4]), mase3\<lparr>n_graphs' := Some 2, n_vertices' := Some 4\<rparr>)"
proof -
  have "import_graph diag_env A4 = Inr A4" "import_graph diag_env B4 = Inr B4" "nrows A4 = 4"
    by (simp_all add: diag_env_def sample_env_def sample_import_graph_def A4_def B4_def)
  then show ?thesis
    by (simp add: BaseEmbedMulti_check_input_graphs_def Let_def)
qed

lemma symmetric_A4: "is_almost_symmetric diag_env A4 = Inr True"
  by (simp add: diag_env_def sample_env_def near_symmetric_def A4_def transpose_m_def column_def upt_rec)

lemma symmetric_B4: "is_almost_symmetric diag_env B4 = Inr True"
  by (simp add: diag_env_def sample_env_def near_symmetric_def B4_def transpose_m_def column_def upt_rec)

lemma first_stage_mase3:
  "first_stage diag_env checked3 [A4, B4] =
     Inr [(E42a, [3, 1], Matrix 2 4 [[1, 0, 0, 0], [0, 1, 0, 0]]),
          (E42b, [3, 1], Matrix 2 4 [[0, 0, 1, 0], [0, 0, 0, 1]])]"
  using svd_A4 svd_B4
  by (simp add: first_stage_def first_stage_rank_def getattr_def checked3_fields ceillog2_4)

lemma best_dimension_mase3: "best_dimension diag_env checked3 [[3, 1], [3, 1]] = Inr 3"
  by (simp add: best_dimension_def checked3_fields)

lemma stacked_mase3: "stacked_matrices diag_env checked3 [A4, B4] = Inr (I4, I4)"
proof -
  have t: "transpose_m (Matrix 2 4 [[1, 0, 0, 0], [0, 1, 0, 0]]) = E42a"
    "transpose_m (Matrix 2 4 [[0, 0, 1, 0], [0, 0, 0, 1]]) = E42b"
    by (simp_all add: transpose_m_def column_def E42a_def E42b_def upt_rec)
  have s: "slice_cols 3 E42a = E42a" "slice_cols 3 E42b = E42b"
    by (simp_all add: slice_cols_def py_take_def E42a_def E42b_def upt_rec)
  have h: "hstack [E42a, E42b] = Inr I4"
    by (simp add: hstack_def E42a_def E42b_def I4_def upt_rec)
  show ?thesis
    by (simp add: stacked_matrices_def first_stage_mase3 spectrum_def best_dimension_mase3
          checked3_fields stack_bases_def left_factors_def right_factors_def truncate_basis_def
          t s h)
qed

lemma svd_I4:
  "selectSVD diag_env I4 (Some 3) (Some 2) ''randomized'' (Some 5) =
     Inr (E43, [1, 1, 1], Matrix 3 4 [[1, 0, 0, 0], [0, 1, 0, 0], [0, 0, 1, 0]])"
  by (simp add: diag_defs I4_def E43_def column_def upt_rec Let_def)

lemma second_stage_mase3: "second_stage diag_env checked3 I4 = Inr E43"
  by (simp add: second_stage_def checked3_fields svd_I4)

lemma reduce_dim_mase3: "MultipleASE_reduce_dim diag_env checked3 [A4, B4] = Inr (E43, E43)"
  by (simp add: MultipleASE_reduce_dim_def stacked_mase3 second_stage_mase3)

lemma project_mase3:
  "project E43 (PyList [A4, B4]) E43 =
     Inr [Matrix 3 3 [[3, 0, 0], [0, 1, 0], [0, 0, 0]], Matrix 3 3 [[0, 0, 0], [0, 0, 0], [0, 0, 3]]]"
proof -
  have t: "transpose_m E43 = Matrix 3 4 [[1, 0, 0, 0], [0, 1, 0, 0], [0, 0, 1, 0]]"
    by (simp add: transpose_m_def column_def E43_def upt_rec)
  have a: "matmul (Matrix 3 4 [[1, 0, 0, 0], [0, 1, 0, 0], [0, 0, 1, 0]]) A4 =
             Inr (Matrix 3 4 [[3, 0, 0, 0], [0, 1, 0, 0], [0, 0, 0, 0]])"
    by (simp add: matmul_def dot_def column_def A4_def upt_rec)
  have b: "matmul (Matrix 3 4 [[1, 0, 0, 0], [0, 1, 0, 0], [0, 0, 1, 0]]) B4 =
             Inr (Matrix 3 4 [[0, 0, 0, 0], [0, 0, 0, 0], [0, 0, 3, 0]])"
    by (simp add: matmul_def dot_def column_def B4_def upt_rec)
  have c: "matmul (Matrix 3 4 [[3, 0, 0, 0], [0, 1, 0, 0], [0, 0, 0, 0]]) E43 =
             Inr (Matrix 3 3 [[3, 0, 0], [0, 1, 0], [0, 0, 0]])"
    by (simp add: matmul_def dot_def column_def E43_def upt_rec)
  have d: "matmul (Matrix 3 4 [[0, 0, 0, 0], [0, 0, 0, 0], [0, 0, 3, 0]]) E43 =
             Inr (Matrix 3 3 [[0, 0, 0], [0, 0, 0], [0, 0, 3]])"
    by (simp add: matmul_def dot_def column_def E43_def upt_rec)
  have s: "shape B4 = shape A4" by (simp add: shape_def A4_def B4_def)
  show ?thesis
    by (simp add: project_def matmul_left_def matmul_right_def as_tensor_def t a b c d s)
qed

lemma fit_mase3: "MultipleASE_fit diag_env (PyList [A4, B4]) mase3 = (Inr (), fitted3)"
proof -
  have u: "all_result (is_almost_symmetric diag_env) (graphs_of (PyList [A4, B4])) = Inr True"
    by (simp add: symmetric_A4 symmetric_B4)
  have r: "MultipleASE_reduce_dim diag_env
             (mase3\<lparr>n_graphs' := Some 2, n_vertices' := Some 4\<rparr>\<lparr>undirected := Some True\<rparr>)
             (graphs_of (PyList [A4, B4])) = Inr (E43, E43)"
    using reduce_dim_mase3 by (simp add: checked3_def)
  have p: "project E43 (PyList [A4, B4]) (if True then E43 else E43) =
     Inr [Matrix 3 3 [[3, 0, 0], [0, 1, 0], [0, 0, 0]], Matrix 3 3 [[0, 0, 0], [0, 0, 0], [0, 0, 3]]]"
    using project_mase3 by simp
  from fit_returns [OF check_mase3 u r p] show ?thesis
    by (simp add: fitted3_def)
qed

text \<open>
  Claim C3. When \<^verbatim>\<open>fit\<close> returns, on checked graphs of \<open>n\<close> vertices: every graph
  was decomposed at rank \<open>\<lceil>log\<^sub>2 n\<rceil>\<close>; the dimension \<open>d\<close> is \<open>n_components\<close> when that
  is given, and otherwise the ceiling of the maximum, over the graphs, of the last elbow
  that \<^verbatim>\<open>select_dimension\<close> returns with \<open>n_elbows\<close> elbows on the graph's singular
  values of the first stage; the bases are truncated to \<open>d\<close> columns and stacked, and
  \<open>latent_left_\<close> is what the second-stage decomposition of the left stack returns.
\<close>

theorem shared_dimension:
  assumes fit: "MultipleASE_fit env graphs self = (Inr (), s')"
    and chk: "BaseEmbedMulti_check_input_graphs env graphs self = (Inr out, s1)"
    and valid: "\<forall>g\<in>set (graphs_of out). nrows g = n"
  shows "\<exists>embeddings d Us Vs Uhat Du Vu.
     0 < n \<and>
     map_result (\<lambda>g. selectSVD env g (Some \<lceil>log 2 (real n)\<rceil>) None (algorithm self)
                      (Some (n_iter self))) (graphs_of out) = Inr embeddings \<and>
     (case n_components self of
        Some c \<Rightarrow> d = c
      | None \<Rightarrow>
          (\<exists>es. length es = length embeddings \<and> es \<noteq> [] \<and>
             (\<forall>i<length embeddings. \<exists>elbows likelihoods.
                 select_dimension env (spectrum (embeddings ! i)) (n_elbows self) =
                   Inr (elbows, likelihoods) \<and>
                 elbows \<noteq> [] \<and> es ! i = last elbows) \<and>
             d = \<lceil>Max (set es)\<rceil>)) \<and>
     stack_bases (scaled self) d (left_factors embeddings) = Inr Us \<and>
     stack_bases (scaled self) d (right_factors embeddings) = Inr Vs \<and>
     selectSVD env Us (n_components self) (Some (n_elbows self)) (algorithm self)
       (Some (n_iter self)) = Inr (Uhat, Du, Vu) \<and>
     latent_left' s' = Some Uhat"
proof -
  from fit_steps [OF fit chk valid] obtain embeddings d Us Vs Uhat Du Vu where
    n: "0 < n" and
    m: "map_result (\<lambda>g. selectSVD env g (Some \<lceil>log 2 (real n)\<rceil>) None (algorithm self)
                      (Some (n_iter self))) (graphs_of out) = Inr embeddings" and
    bd: "best_dimension env self (map spectrum embeddings) = Inr d" and
    l: "stack_bases (scaled self) d (left_factors embeddings) = Inr Us" and
    r: "stack_bases (scaled self) d (right_factors embeddings) = Inr Vs" and
    u: "selectSVD env Us (n_components self) (Some (n_elbows self)) (algorithm self)
          (Some (n_iter self)) = Inr (Uhat, Du, Vu)" and
    ll: "latent_left' s' = Some Uhat"
    by blast
  have c: "case n_components self of
        Some c \<Rightarrow> d = c
      | None \<Rightarrow>
          (\<exists>es. length es = length embeddings \<and> es \<noteq> [] \<and>
             (\<forall>i<length embeddings. \<exists>elbows likelihoods.
                 select_dimension env (spectrum (embeddings ! i)) (n_elbows self) =
                   Inr (elbows, likelihoods) \<and>
                 elbows \<noteq> [] \<and> es ! i = last elbows) \<and>
             d = \<lceil>Max (set es)\<rceil>)"
    using best_dimension_Inr [OF bd] by (auto split: option.splits)
  from n m c l r u ll show ?thesis by blast
qed

theorem shared_dimension_witness:
  "MultipleASE_fit diag_env (PyList [A5, B5]) mase_auto = (Inr (), fitted_auto) \<and>
   BaseEmbedMulti_check_input_graphs diag_env (PyList [A5, B5]) mase_auto =
     (Inr (PyList [A5, B5]), mase_auto\<lparr>n_graphs' := Some 2, n_vertices' := Some 5\<rparr>) \<and>
   nrows A5 = 5 \<and> nrows B5 = 5 \<and> n_components mase_auto = None \<and>
   select_dimension diag_env [4, 2, 1] 2 = Inr ([1, 2], [0, 0]) \<and>
   select_dimension diag_env [4, 3, 2] 2 = Inr ([3], [0]) \<and>
   best_dimension diag_env mase_auto [[4, 2, 1], [4, 3, 2]] = Inr 3 \<and>
   (\<exists>embeddings d Us Vs Uhat Du Vu.
     0 < (5::nat) \<and>
     map_result (\<lambda>g. selectSVD diag_env g (Some \<lceil>log 2 (real 5)\<rceil>) None (algorithm mase_auto)
                      (Some (n_iter mase_auto))) (graphs_of (PyList [A5, B5])) = Inr embeddings \<and>
     (case n_components mase_auto of
        Some c \<Rightarrow> d = c
      | None \<Rightarrow>
          (\<exists>es. length es = length embeddings \<and> es \<noteq> [] \<and>
             (\<forall>i<length embeddings. \<exists>elbows likelihoods.
                 select_dimension diag_env (spectrum (embeddings ! i)) (n_elbows mase_auto) =
                   Inr (elbows, likelihoods) \<and>
                 elbows \<noteq> [] \<and> es ! i = last elbows) \<and>
             d = \<lceil>Max (set es)\<rceil>)) \<and>
     stack_bases (scaled mase_auto) d (left_factors embeddings) = Inr Us \<and>
     stack_bases (scaled mase_auto) d (right_factors embeddings) = Inr Vs \<and>
     selectSVD diag_env Us (n_components mase_auto) (Some (n_elbows mase_auto))
       (algorithm mase_auto) (Some (n_iter mase_auto)) = Inr (Uhat, Du, Vu) \<and>
     latent_left' fitted_auto = Some Uhat)"
proof -
  have n: "nrows A5 = 5" "nrows B5 = 5" by (simp_all add: A5_def B5_def)
  then have valid: "\<forall>g\<in>set (graphs_of (PyList [A5, B5])). nrows g = 5" by simp
  have nc: "n_components mase_auto = None"
    by (simp add: mase_auto_def MultipleASE_init_def)
  show ?thesis
    by (intro conjI)
       (rule fit_auto, rule check_auto, rule n(1), rule n(2), rule nc, rule select_A5,
        rule select_B5, rule best_dimension_auto0,
        rule shared_dimension [OF fit_auto check_auto valid])
qed

text \<open>
  Claim C4, as stated, at the two graphs of four vertices with \<open>n_components = 3\<close>
  (below the number of vertices, as the solver requires): \<^verbatim>\<open>fit\<close> returns; the first
  stage has rank \<open>\<lceil>log\<^sub>2 4\<rceil> = 2\<close>, so each truncated basis has two columns; the matrix
  handed to the second stage is \<open>4 \<times> 4\<close>, not \<open>4 \<times> (K \<cdot> best_dimension) = 4 \<times> 6\<close>.
\<close>

theorem stacked_width_counterexample:
  "MultipleASE_fit diag_env (PyList [A4, B4]) mase3 = (Inr (), fitted3) \<and>
   best_dimension diag_env checked3 [[3, 1], [3, 1]] = Inr 3 \<and>
   stacked_matrices diag_env checked3 [A4, B4] = Inr (I4, I4) \<and>
   second_stage diag_env checked3 I4 = Inr E43 \<and>
   MultipleASE_reduce_dim diag_env checked3 [A4, B4] = Inr (E43, E43) \<and>
   latent_left' fitted3 = Some E43 \<and>
   length [A4, B4] = 2 \<and> shape I4 = (4, 4) \<and> shape I4 \<noteq> (4, 2 * 3)"
  using fit_mase3 best_dimension_mase3 stacked_mase3 second_stage_mase3 reduce_dim_mase3
  by (simp add: fitted3_def shape_def I4_def)

text \<open>
  Claim C4, amended. When \<^verbatim>\<open>fit\<close> returns, on \<open>K\<close> checked graphs of shape
  \<open>n \<times> n\<close>, with a solver that returns the rank it is asked for at the first stage
  (\<open>U\<close> of shape \<open>n \<times> r\<close> and \<open>V\<close> of shape \<open>r \<times> n\<close>, for \<open>r = \<lceil>log\<^sub>2 n\<rceil>\<close>): the matrix
  handed to the left decomposition of the second stage is the horizontal stack, in the
  order of the graphs, of the blocks \<^verbatim>\<open>U[:, :d]\<close>, each multiplied by
  \<^verbatim>\<open>diag(sqrt(D[:d]))\<close> when \<open>scaled\<close> is set; the right one is built in the same way
  from \<^verbatim>\<open>V.T\<close>; for \<open>d \<ge> 0\<close> both have shape \<open>n \<times> (K \<cdot> min d r)\<close>, which is
  \<open>n \<times> (K \<cdot> d)\<close> when \<open>d \<le> r\<close>.
\<close>

theorem second_stage_input:
  assumes fit: "MultipleASE_fit env graphs self = (Inr (), s')"
    and chk: "BaseEmbedMulti_check_input_graphs env graphs self = (Inr out, s1)"
    and valid: "\<forall>g\<in>set (graphs_of out). nrows g = n \<and> ncols g = n"
    and contract: "\<forall>g\<in>set (graphs_of out). \<forall>U D V.
        selectSVD env g (Some \<lceil>log 2 (real n)\<rceil>) None (algorithm self) (Some (n_iter self)) =
          Inr (U, D, V) \<longrightarrow>
        nrows U = nrows g \<and> ncols U = nat \<lceil>log 2 (real n)\<rceil> \<and>
        nrows V = nat \<lceil>log 2 (real n)\<rceil> \<and> ncols V = ncols g"
  shows "\<exists>embeddings d Ls Rs Us Vs Uhat Du Vu Vhat Dv Vv.
     map_result (\<lambda>g. selectSVD env g (Some \<lceil>log 2 (real n)\<rceil>) None (algorithm self)
                      (Some (n_iter self))) (graphs_of out) = Inr embeddings \<and>
     best_dimension env self (map spectrum embeddings) = Inr d \<and>
     length Ls = length (graphs_of out) \<and> length Rs = length (graphs_of out) \<and>
     (\<forall>i<length (graphs_of out). case embeddings ! i of (U, D, V) \<Rightarrow>
        (if scaled self then matmul (slice_cols d U) (diag (map sqrt (py_take d D)))
         else Inr (slice_cols d U)) = Inr (Ls ! i) \<and>
        (if scaled self then matmul (slice_cols d (transpose_m V)) (diag (map sqrt (py_take d D)))
         else Inr (slice_cols d (transpose_m V))) = Inr (Rs ! i)) \<and>
     hstack Ls = Inr Us \<and> hstack Rs = Inr Vs \<and>
     selectSVD env Us (n_components self) (Some (n_elbows self)) (algorithm self)
       (Some (n_iter self)) = Inr (Uhat, Du, Vu) \<and>
     selectSVD env Vs (n_components self) (Some (n_elbows self)) (algorithm self)
       (Some (n_iter self)) = Inr (Vhat, Dv, Vv) \<and>
     latent_left' s' = Some Uhat \<and>
     (0 \<le> d \<longrightarrow>
        shape Us = (n, length (graphs_of out) * min (nat d) (nat \<lceil>log 2 (real n)\<rceil>)) \<and>
        shape Vs = (n, length (graphs_of out) * min (nat d) (nat \<lceil>log 2 (real n)\<rceil>)))"
proof -
  let ?gs = "graphs_of out"
  let ?r = "nat \<lceil>log 2 (real n)\<rceil>"
  from valid have valid': "\<forall>g\<in>set ?gs. nrows g = n" by simp
  from fit_steps [OF fit chk valid'] obtain embeddings d Us Vs Uhat Du Vu Vhat Dv Vv where
    m: "map_result (\<lambda>g. selectSVD env g (Some \<lceil>log 2 (real n)\<rceil>) None (algorithm self)
                      (Some (n_iter self))) ?gs = Inr embeddings" and
    bd: "best_dimension env self (map spectrum embeddings) = Inr d" and
    l: "stack_bases (scaled self) d (left_factors embeddings) = Inr Us" and
    r: "stack_bases (scaled self) d (right_factors embeddings) = Inr Vs" and
    u: "selectSVD env Us (n_components self) (Some (n_elbows self)) (algorithm self)
          (Some (n_iter self)) = Inr (Uhat, Du, Vu)" and
    v: "selectSVD env Vs (n_components self) (Some (n_elbows self)) (algorithm self)
          (Some (n_iter self)) = Inr (Vhat, Dv, Vv)" and
    ll: "latent_left' s' = Some Uhat"
    by blast
  from m have len: "length embeddings = length ?gs" and
    each: "\<forall>i<length ?gs. selectSVD env (?gs ! i) (Some \<lceil>log 2 (real n)\<rceil>) None
             (algorithm self) (Some (n_iter self)) = Inr (embeddings ! i)"
    by (simp_all add: map_result_Inr_iff)
  have shapes: "\<forall>i<length embeddings. case embeddings ! i of (U, D, V) \<Rightarrow>
                   nrows U = n \<and> ncols U = ?r \<and> nrows V = ?r \<and> ncols V = n"
  proof (intro allI impI)
    fix i assume i: "i < length embeddings"
    obtain U D V where e: "embeddings ! i = (U, D, V)" by (cases "embeddings ! i") auto
    from i len have g: "?gs ! i \<in> set ?gs" by simp
    from i len each e have "selectSVD env (?gs ! i) (Some \<lceil>log 2 (real n)\<rceil>) None
             (algorithm self) (Some (n_iter self)) = Inr (U, D, V)" by simp
    with contract g have "nrows U = nrows (?gs ! i) \<and> ncols U = ?r \<and> nrows V = ?r \<and>
        ncols V = ncols (?gs ! i)" by blast
    with valid g e show "case embeddings ! i of (U, D, V) \<Rightarrow>
                   nrows U = n \<and> ncols U = ?r \<and> nrows V = ?r \<and> ncols V = n" by simp
  qed
  have ll': "length (left_factors embeddings) = length ?gs"
    and lr': "length (right_factors embeddings) = length ?gs"
    using len by (simp_all add: left_factors_def right_factors_def)
  from stack_bases_blocks [OF l] ll' obtain Ls where
    Ls: "length Ls = length ?gs"
        "\<forall>i<length ?gs. truncate_basis (scaled self) d (left_factors embeddings ! i) = Inr (Ls ! i)"
        "hstack Ls = Inr Us"
    by auto
  from stack_bases_blocks [OF r] lr' obtain Rs where
    Rs: "length Rs = length ?gs"
        "\<forall>i<length ?gs. truncate_basis (scaled self) d (right_factors embeddings ! i) = Inr (Rs ! i)"
        "hstack Rs = Inr Vs"
    by auto
  have blocks: "\<forall>i<length ?gs. case embeddings ! i of (U, D, V) \<Rightarrow>
        (if scaled self then matmul (slice_cols d U) (diag (map sqrt (py_take d D)))
         else Inr (slice_cols d U)) = Inr (Ls ! i) \<and>
        (if scaled self then matmul (slice_cols d (transpose_m V)) (diag (map sqrt (py_take d D)))
         else Inr (slice_cols d (transpose_m V))) = Inr (Rs ! i)"
  proof (intro allI impI)
    fix i assume i: "i < length ?gs"
    obtain U D V where e: "embeddings ! i = (U, D, V)" by (cases "embeddings ! i") auto
    from i len e have "left_factors embeddings ! i = (U, D)"
      and "right_factors embeddings ! i = (transpose_m V, D)"
      by (simp_all add: left_factors_def right_factors_def)
    with Ls(2) Rs(2) i have
      "truncate_basis (scaled self) d (U, D) = Inr (Ls ! i)"
      "truncate_basis (scaled self) d (transpose_m V, D) = Inr (Rs ! i)"
      by auto
    with e show "case embeddings ! i of (U, D, V) \<Rightarrow>
        (if scaled self then matmul (slice_cols d U) (diag (map sqrt (py_take d D)))
         else Inr (slice_cols d U)) = Inr (Ls ! i) \<and>
        (if scaled self then matmul (slice_cols d (transpose_m V)) (diag (map sqrt (py_take d D)))
         else Inr (slice_cols d (transpose_m V))) = Inr (Rs ! i)"
      by (auto simp: truncate_basis_def split: if_splits)
  qed
  have sh: "0 \<le> d \<longrightarrow>
        shape Us = (n, length ?gs * min (nat d) ?r) \<and>
        shape Vs = (n, length ?gs * min (nat d) ?r)"
  proof
    assume d: "0 \<le> d"
    have lsh: "\<forall>i<length (left_factors embeddings).
        nrows (fst (left_factors embeddings ! i)) = n \<and>
        ncols (fst (left_factors embeddings ! i)) = ?r"
      using shapes by (auto simp: left_factors_def split: prod.splits)
    have rsh: "\<forall>i<length (right_factors embeddings).
        nrows (fst (right_factors embeddings ! i)) = n \<and>
        ncols (fst (right_factors embeddings ! i)) = ?r"
      using shapes by (auto simp: right_factors_def transpose_m_def split: prod.splits)
    from stack_bases_shape [OF l lsh d] stack_bases_shape [OF r rsh d] ll' lr'
    show "shape Us = (n, length ?gs * min (nat d) ?r) \<and>
          shape Vs = (n, length ?gs * min (nat d) ?r)"
      by auto
  qed
  from m bd Ls(1) Rs(1) blocks Ls(3) Rs(3) u v ll sh show ?thesis by blast
qed

theorem second_stage_input_witness:
  "MultipleASE_fit diag_env (PyList [A4, B4]) mase3 = (Inr (), fitted3) \<and>
   BaseEmbedMulti_check_input_graphs diag_env (PyList [A4, B4]) mase3 =
     (Inr (PyList [A4, B4]), mase3\<lparr>n_graphs' := Some 2, n_vertices' := Some 4\<rparr>) \<and>
   shape A4 = (4, 4) \<and> shape B4 = (4, 4) \<and> n_components mase3 = Some 3 \<and>
   (\<exists>Us Vs Uhat Du Vu.
      selectSVD diag_env Us (n_components mase3) (Some (n_elbows mase3)) (algorithm mase3)
        (Some (n_iter mase3)) = Inr (Uhat, Du, Vu) \<and>
      latent_left' fitted3 = Some Uhat \<and>
      shape Us = (4, length (graphs_of (PyList [A4, B4])) * min (nat 3) (nat \<lceil>log 2 (real 4)\<rceil>)) \<and>
      shape Vs = (4, length (graphs_of (PyList [A4, B4])) * min (nat 3) (nat \<lceil>log 2 (real 4)\<rceil>)))"
proof -
  have sh: "shape A4 = (4, 4)" "shape B4 = (4, 4)" by (simp_all add: shape_def A4_def B4_def)
  then have valid: "\<forall>g\<in>set (graphs_of (PyList [A4, B4])). nrows g = 4 \<and> ncols g = 4"
    by (simp add: shape_def)
  have nc: "n_components mase3 = Some 3" by (simp add: mase3_def MultipleASE_init_def)
  have contract: "\<forall>g\<in>set (graphs_of (PyList [A4, B4])). \<forall>U D V.
        selectSVD diag_env g (Some \<lceil>log 2 (real 4)\<rceil>) None (algorithm mase3) (Some (n_iter mase3)) =
          Inr (U, D, V) \<longrightarrow>
        nrows U = nrows g \<and> ncols U = nat \<lceil>log 2 (real 4)\<rceil> \<and>
        nrows V = nat \<lceil>log 2 (real 4)\<rceil> \<and> ncols V = ncols g"
    using rows_selectSVD_shape by (simp add: diag_env_def)
  from second_stage_input [OF fit_mase3 check_mase3 valid contract]
  obtain d Us Vs Uhat Du Vu where
    bd: "\<exists>embeddings. best_dimension diag_env mase3 (map spectrum embeddings) = Inr d" and
    u: "selectSVD diag_env Us (n_components mase3) (Some (n_elbows mase3)) (algorithm mase3)
          (Some (n_iter mase3)) = Inr (Uhat, Du, Vu)" and
    ll: "latent_left' fitted3 = Some Uhat" and
    s: "0 \<le> d \<longrightarrow>
        shape Us = (4, length (graphs_of (PyList [A4, B4])) * min (nat d) (nat \<lceil>log 2 (real 4)\<rceil>)) \<and>
        shape Vs = (4, length (graphs_of (PyList [A4, B4])) * min (nat d) (nat \<lceil>log 2 (real 4)\<rceil>))"
    by blast
  from bd nc have d: "d = 3" by (auto simp: best_dimension_def)
  with s have
    "shape Us = (4, length (graphs_of (PyList [A4, B4])) * min (nat 3) (nat \<lceil>log 2 (real 4)\<rceil>))"
    "shape Vs = (4, length (graphs_of (PyList [A4, B4])) * min (nat 3) (nat \<lceil>log 2 (real 4)\<rceil>))"
    by simp_all
  with u ll fit_mase3 check_mase3 sh nc show ?thesis by blast
qed

section \<open>\<^verbatim>\<open>MultipleASE.fit\<close>\<close>

text \<open>
  Claim C2. After a \<^verbatim>\<open>fit\<close> that returns, on the graphs \<open>G\<^sub>1 .. G\<^sub>K\<close> that
  \<^verbatim>\<open>_check_input_graphs\<close> hands back: \<open>undirected\<close> is true exactly when
  \<^verbatim>\<open>is_almost_symmetric\<close> holds of every graph; \<open>latent_left_\<close> is the \<open>Uhat\<close> of
  \<^verbatim>\<open>_reduce_dim\<close>; in the undirected case \<open>latent_right_\<close> is None and every
  \<open>scores_[i]\<close> is \<open>Uhat\<^sup>T \<cdot> G\<^sub>i \<cdot> Uhat\<close>; in the directed case \<open>latent_right_\<close> is
  \<open>Vhat\<close> and every \<open>scores_[i]\<close> is \<open>Uhat\<^sup>T \<cdot> G\<^sub>i \<cdot> Vhat\<close>.
\<close>

theorem fit_postcondition:
  assumes "MultipleASE_fit env graphs self = (Inr (), s')"
  shows "\<exists>out s1 Uhat Vhat R.
     BaseEmbedMulti_check_input_graphs env graphs self = (Inr out, s1) \<and>
     MultipleASE_reduce_dim env (s1\<lparr>undirected := undirected s'\<rparr>) (graphs_of out) = Inr (Uhat, Vhat) \<and>
     undirected s' = Some (\<forall>g\<in>set (graphs_of out). is_almost_symmetric env g = Inr True) \<and>
     latent_left' s' = Some Uhat \<and>
     scores' s' = Some R \<and> length R = length (graphs_of out) \<and>
     (if (\<forall>g\<in>set (graphs_of out). is_almost_symmetric env g = Inr True)
      then latent_right' s' = Some None \<and>
           (\<forall>i<length R. score_of Uhat (graphs_of out ! i) Uhat = Inr (R ! i))
      else latent_right' s' = Some (Some Vhat) \<and>
           (\<forall>i<length R. score_of Uhat (graphs_of out ! i) Vhat = Inr (R ! i)))"
proof -
  from fit_success [OF assms] obtain out s1 und Uhat Vhat R where
    chk: "BaseEmbedMulti_check_input_graphs env graphs self = (Inr out, s1)" and
    und: "all_result (is_almost_symmetric env) (graphs_of out) = Inr und" and
    red: "MultipleASE_reduce_dim env (s1\<lparr>undirected := Some und\<rparr>) (graphs_of out) = Inr (Uhat, Vhat)" and
    prj: "project Uhat out (if und then Uhat else Vhat) = Inr R" and
    s': "s' = s1\<lparr>undirected := Some und, latent_left' := Some Uhat,
             latent_right' := Some (if und then None else Some Vhat), scores' := Some R\<rparr>"
    by blast
  from check_input_graphs_Inr [OF chk] obtain gs where
    out: "out = PyList gs \<or> out = NdArray3 gs" by blast
  then have gs: "graphs_of out = gs" by auto
  from all_result_Inr [OF und] have
    und_eq: "und = (\<forall>g\<in>set (graphs_of out). is_almost_symmetric env g = Inr True)" .
  from project_Inr [OF prj out] have
    len: "length R = length gs" and
    sc: "\<forall>i<length gs. score_of Uhat (gs ! i) (if und then Uhat else Vhat) = Inr (R ! i)"
    by simp_all
  have red': "MultipleASE_reduce_dim env (s1\<lparr>undirected := undirected s'\<rparr>) (graphs_of out) = Inr (Uhat, Vhat)"
    using red s' by simp
  show ?thesis
  proof (cases und)
    case True
    with und_eq have all: "\<forall>g\<in>set (graphs_of out). is_almost_symmetric env g = Inr True" by simp
    show ?thesis
      apply (rule exI [of _ out], rule exI [of _ s1], rule exI [of _ Uhat],
             rule exI [of _ Vhat], rule exI [of _ R])
      using chk red' all s' len sc gs True by simp
  next
    case False
    with und_eq have all: "\<not> (\<forall>g\<in>set (graphs_of out). is_almost_symmetric env g = Inr True)" by simp
    show ?thesis
      apply (rule exI [of _ out], rule exI [of _ s1], rule exI [of _ Uhat],
             rule exI [of _ Vhat], rule exI [of _ R])
      using chk red' all s' len sc gs False by simp
  qed
qed

theorem fit_postcondition_witness:
  "MultipleASE_fit sample_env (PyList [G1, G1]) mase1 = (Inr (), fitted1) \<and>
   undirected fitted1 = Some True \<and> latent_right' fitted1 = Some None \<and>
   (\<exists>Uhat R. latent_left' fitted1 = Some Uhat \<and> scores' fitted1 = Some R \<and>
       length R = 2 \<and> (\<forall>i<length R. score_of Uhat ([G1, G1] ! i) Uhat = Inr (R ! i)))"
proof -
  have u: "undirected fitted1 = Some True" and r: "latent_right' fitted1 = Some None"
    by (simp_all add: fitted1_def)
  from fit_postcondition [OF fit_G1] obtain out s1 Uhat Vhat R where
    chk: "BaseEmbedMulti_check_input_graphs sample_env (PyList [G1, G1]) mase1 = (Inr out, s1)" and
    L: "latent_left' fitted1 = Some Uhat" and
    R: "scores' fitted1 = Some R" and len: "length R = length (graphs_of out)" and
    un: "undirected fitted1 = Some (\<forall>g\<in>set (graphs_of out). is_almost_symmetric sample_env g = Inr True)" and
    br: "(if (\<forall>g\<in>set (graphs_of out). is_almost_symmetric sample_env g = Inr True)
      then latent_right' fitted1 = Some None \<and>
           (\<forall>i<length R. score_of Uhat (graphs_of out ! i) Uhat = Inr (R ! i))
      else latent_right' fitted1 = Some (Some Vhat) \<and>
           (\<forall>i<length R. score_of Uhat (graphs_of out ! i) Vhat = Inr (R ! i)))"
    by blast
  have out: "out = PyList [G1, G1]"
    using chk by (simp add: BaseEmbedMulti_check_input_graphs_def sample_env_def
        sample_import_graph_def G1_def Let_def)
  from un u have "\<forall>g\<in>set (graphs_of out). is_almost_symmetric sample_env g = Inr True" by simp
  with br have "\<forall>i<length R. score_of Uhat (graphs_of out ! i) Uhat = Inr (R ! i)" by simp
  with out len L R u r fit_G1 show ?thesis by auto
qed



text \<open>The two rejections of \<^verbatim>\<open>_check_input_graphs\<close> for too few graphs: they come
  before any other step and leave the instance as it was.\<close>

lemma fit_too_few:
  assumes "length gs \<le> 1"
  shows "MultipleASE_fit env (PyList gs) self =
           (Inl (ValueError ''Input must have at least 2 graphs''), self)"
    and "MultipleASE_fit env (NdArray3 gs) self =
           (Inl (ValueError ''Input tensor must have at least 2 elements''), self)"
  using assms by (simp_all add: MultipleASE_fit_def BaseEmbedMulti_check_input_graphs_def)

text \<open>
  Claim C5, at a list of two graphs of unequal size (\<open>G1\<close> on two vertices, \<open>G3\<close> on
  three). \<^verbatim>\<open>_check_input_graphs\<close> accepts the list and records \<open>n_graphs_\<close> and
  \<open>n_vertices_\<close>; both graphs are then decomposed; the failure is numpy's, when the
  bases of unequal height are stacked, and the instance keeps \<open>n_graphs_\<close>,
  \<open>n_vertices_\<close> and \<open>undirected\<close>.
\<close>

theorem fit_ragged:
  "BaseEmbedMulti_check_input_graphs sample_env (PyList [G1, G3]) mase1 =
     (Inr (PyList [G1, G3]), mase1\<lparr>n_graphs' := Some 2, n_vertices' := Some 2\<rparr>) \<and>
   first_stage sample_env
       (mase1\<lparr>n_graphs' := Some 2, n_vertices' := Some 2, undirected := Some True\<rparr>) [G1, G3] =
     Inr [(Matrix 2 1 [[1], [0]], [1], Matrix 1 2 [[1, 0]]),
          (Matrix 3 1 [[1], [0], [0]], [1], Matrix 1 3 [[1, 0, 0]])] \<and>
   MultipleASE_fit sample_env (PyList [G1, G3]) mase1 =
     (Inl (ValueError ''all the input array dimensions except for the concatenation axis must match exactly''),
      mase1\<lparr>n_graphs' := Some 2, n_vertices' := Some 2, undirected := Some True\<rparr>)"
  by (simp add: mase_defs sample_defs np_defs upt_rec Let_def)

section \<open>\<^verbatim>\<open>MultipleASE.transform\<close>\<close>

text \<open>
  Claim C7. On an instance whose \<open>undirected\<close> flag is set, with new graphs that
  \<^verbatim>\<open>_check_input_graphs\<close> accepts and on each of which \<^verbatim>\<open>is_almost_symmetric\<close>
  returns: when the flag differs from ``every new graph is near-symmetric'',
  \<^verbatim>\<open>transform\<close> raises the TypeError of the directedness check.
\<close>

theorem transform_directedness_mismatch:
  assumes chk: "BaseEmbedMulti_check_input_graphs env graphs self = (Inr out, s1)"
    and total: "\<forall>g\<in>set (graphs_of out). \<exists>b. is_almost_symmetric env g = Inr b"
    and fitted: "undirected self = Some u"
    and differ: "u \<noteq> (\<forall>g\<in>set (graphs_of out). is_almost_symmetric env g = Inr True)"
  shows "MultipleASE_transform env graphs self =
           (Inl (TypeError ''The input graphs and the fitted graphs are not both undirected or directed.''), s1)"
proof -
  from check_input_graphs_frame [OF chk] fitted have u: "undirected s1 = Some u" by simp
  from all_result_total [OF total] have
    "all_result (is_almost_symmetric env) (graphs_of out) =
       Inr (\<forall>g\<in>set (graphs_of out). is_almost_symmetric env g = Inr True)" .
  with chk u differ show ?thesis
    by (simp add: MultipleASE_transform_def getattr_def)
qed

theorem transform_directedness_mismatch_witness:
  "BaseEmbedMulti_check_input_graphs sample_env (PyList [G4, G4]) fitted1 =
     (Inr (PyList [G4, G4]), fitted1) \<and>
   undirected fitted1 = Some True \<and>
   is_almost_symmetric sample_env G4 = Inr False \<and>
   MultipleASE_transform sample_env (PyList [G4, G4]) fitted1 =
     (Inl (TypeError ''The input graphs and the fitted graphs are not both undirected or directed.''), fitted1)"
proof -
  have u: "undirected fitted1 = Some True" by (simp add: fitted1_def)
  have t: "\<forall>g\<in>set (graphs_of (PyList [G4, G4])). \<exists>b. is_almost_symmetric sample_env g = Inr b"
    using G4_not_symmetric by auto
  have d: "True \<noteq> (\<forall>g\<in>set (graphs_of (PyList [G4, G4])). is_almost_symmetric sample_env g = Inr True)"
    using G4_not_symmetric by simp
  from transform_directedness_mismatch [OF check_G4 t u d] check_G4 u G4_not_symmetric
  show ?thesis by simp
qed

text \<open>Before any \<^verbatim>\<open>fit\<close> the instance has no attribute \<open>undirected\<close>, and after a
  \<^verbatim>\<open>fit\<close> that failed in \<^verbatim>\<open>_reduce_dim\<close> it has no \<open>latent_left_\<close>: the lookup
  raises AttributeError, which the handler for NameError lets through.\<close>

lemma transform_before_fit:
  assumes "BaseEmbedMulti_check_input_graphs env graphs self = (Inr out, s1)"
    and "all_result (is_almost_symmetric env) (graphs_of out) = Inr und"
    and "undirected self = None"
  shows "MultipleASE_transform env graphs self = (Inl (AttributeError ''undirected''), s1)"
  using assms check_input_graphs_frame [OF assms(1)]
  by (simp add: MultipleASE_transform_def getattr_def)

lemma transform_after_failed_fit:
  assumes "BaseEmbedMulti_check_input_graphs env graphs self = (Inr out, s1)"
    and "all_result (is_almost_symmetric env) (graphs_of out) = Inr und"
    and "undirected self = Some und" and "latent_left' self = None"
  shows "MultipleASE_transform env graphs self = (Inl (AttributeError ''latent_left_''), s1)"
  using assms check_input_graphs_frame [OF assms(1)]
  by (simp add: MultipleASE_transform_def getattr_def)

text \<open>
  Claim C6, at an instance fresh from the constructor and a list of two graphs:
  \<^verbatim>\<open>transform\<close> fails with the AttributeError of the lookup of \<open>undirected\<close>, not
  with the NameError ``You need to fit this MASE first.'', and the instance has gained
  \<open>n_graphs_\<close> and \<open>n_vertices_\<close>.
\<close>

theorem transform_unfitted:
  "MultipleASE_transform sample_env (PyList [G1, G1]) mase1 =
     (Inl (AttributeError ''undirected''), mase1\<lparr>n_graphs' := Some 2, n_vertices' := Some 2\<rparr>)"
  by (simp add: transform_defs mase_defs sample_defs np_defs upt_rec Let_def)

text \<open>A \<^verbatim>\<open>transform\<close> that returns has returned what \<^verbatim>\<open>fit_transform\<close> returns on
  the checked graphs, with the instance that \<^verbatim>\<open>fit\<close> leaves.\<close>

lemma transform_is_refit:
  assumes "MultipleASE_transform env graphs self = (Inr R, s')"
  shows "\<exists>out s1. BaseEmbedMulti_check_input_graphs env graphs self = (Inr out, s1) \<and>
           MultipleASE_fit_transform env out s1 = (Inr R, s')"
  using assms
  by (auto simp: MultipleASE_transform_def split: prod.splits sum.splits if_splits pyexc.splits)

text \<open>
  Claim C1, at the instance fitted on two copies of \<open>G1\<close> and the new graphs
  \<open>[G2, G2]\<close>, all undirected. The fitted basis is \<open>e\<^sub>1\<close>, and the projection of the
  new graphs onto it is \<open>[[0]]\<close> for each. \<^verbatim>\<open>transform\<close> returns \<open>[[1]]\<close> for each,
  the scores of a new \<^verbatim>\<open>fit\<close> on \<open>[G2, G2]\<close>, and leaves the instance with the basis
  \<open>e\<^sub>2\<close> of that new \<^verbatim>\<open>fit\<close>.
\<close>

theorem transform_refits:
  "latent_left' fitted1 = Some (Matrix 2 1 [[1], [0]]) \<and>
   project (Matrix 2 1 [[1], [0]]) (PyList [G2, G2]) (Matrix 2 1 [[1], [0]]) =
     Inr [Matrix 1 1 [[0]], Matrix 1 1 [[0]]] \<and>
   MultipleASE_transform sample_env (PyList [G2, G2]) fitted1 =
     (Inr [Matrix 1 1 [[1]], Matrix 1 1 [[1]]], fitted2) \<and>
   MultipleASE_fit sample_env (PyList [G2, G2]) fitted1 = (Inr (), fitted2) \<and>
   latent_left' fitted2 = Some (Matrix 2 1 [[0], [1]])"
  using fit_G2 transform_G2 project_G2 by (simp add: fitted1_def fitted2_def)

section \<open>\<^verbatim>\<open>BaseEmbed._reduce_dim\<close>\<close>

lemma matmul_nrows: "matmul A B = Inr M \<Longrightarrow> nrows M = nrows A \<and> ncols M = ncols B"
  by (auto simp: matmul_def split: if_splits)

lemma svd_G4:
  "selectSVD sample_env G4 (n_components mase1) (Some (n_elbows mase1)) (algorithm mase1)
     (Some (n_iter mase1)) = Inr (Matrix 2 1 [[1], [0]], [1], Matrix 1 2 [[0, 1]])"
  by (simp add: sample_defs column_def Let_def)

lemma reduce_dim_G4: "BaseEmbed_reduce_dim sample_env G4 mase1 = (Inr (), embedded4)"
  by (simp add: BaseEmbed_reduce_dim_def embedded4_def sample_defs np_defs upt_rec Let_def)

text \<open>
  Claim C8. For a square adjacency matrix \<open>A\<close> on which the solver returns
  \<open>(U, D, V)\<close>, with as many rows in \<open>U\<close> and columns in \<open>V\<close> as \<open>A\<close> has, and a
  reduction that returns: \<open>latent_left_\<close> is \<open>U \<cdot> diag(sqrt D)\<close>; when \<open>A\<close> is
  near-symmetric \<open>latent_right_\<close> is None; when it is not, \<open>latent_right_\<close> is
  \<open>V\<^sup>T \<cdot> diag(sqrt D)\<close> (the \<open>V\<close> of the source holds the right singular vectors as
  rows) and has as many rows as \<open>latent_left_\<close>.
\<close>

theorem single_graph_reduce_dim:
  assumes svd: "selectSVD env A (n_components self) (Some (n_elbows self)) (algorithm self)
                  (Some (n_iter self)) = Inr (U, D, V)"
    and ok: "BaseEmbed_reduce_dim env A self = (Inr (), s')"
    and shapes: "nrows U = nrows A" "ncols V = ncols A" "nrows A = ncols A"
  shows "\<exists>L. matmul U (diag (map sqrt D)) = Inr L \<and> latent_left' s' = Some L \<and>
     (is_almost_symmetric env A = Inr True \<and> latent_right' s' = Some None \<or>
      is_almost_symmetric env A = Inr False \<and>
        (\<exists>R. matmul (transpose_m V) (diag (map sqrt D)) = Inr R \<and>
             latent_right' s' = Some (Some R) \<and> nrows R = nrows L))"
proof -
  from ok svd obtain L where
    L: "matmul U (diag (map sqrt D)) = Inr L"
    by (auto simp: BaseEmbed_reduce_dim_def Let_def split: sum.splits)
  from ok svd L obtain b where b: "is_almost_symmetric env A = Inr b"
    by (auto simp: BaseEmbed_reduce_dim_def Let_def split: sum.splits)
  show ?thesis
  proof (cases b)
    case True
    with ok svd L b have "latent_left' s' = Some L \<and> latent_right' s' = Some None"
      by (auto simp: BaseEmbed_reduce_dim_def Let_def)
    with L b True show ?thesis by auto
  next
    case False
    with ok svd L b obtain R where
      R: "matmul (transpose_m V) (diag (map sqrt D)) = Inr R" and
      s: "latent_left' s' = Some L \<and> latent_right' s' = Some (Some R)"
      by (auto simp: BaseEmbed_reduce_dim_def Let_def split: sum.splits)
    from matmul_nrows [OF L] matmul_nrows [OF R] shapes have "nrows R = nrows L"
      by (simp add: transpose_m_def)
    with L R s b False show ?thesis by auto
  qed
qed

theorem single_graph_reduce_dim_witness:
  "BaseEmbed_reduce_dim sample_env G4 mase1 = (Inr (), embedded4) \<and>
   is_almost_symmetric sample_env G4 = Inr False \<and>
   (\<exists>L R. latent_left' embedded4 = Some L \<and> latent_right' embedded4 = Some (Some R) \<and>
          matmul (Matrix 2 1 [[1], [0]]) (diag (map sqrt [1])) = Inr L \<and>
          matmul (transpose_m (Matrix 1 2 [[0, 1]])) (diag (map sqrt [1])) = Inr R \<and>
          nrows R = nrows L)"
proof -
  have sh: "nrows (Matrix 2 1 [[1], [0]]) = nrows G4" "ncols (Matrix 1 2 [[0, 1]]) = ncols G4"
    "nrows G4 = ncols G4"
    by (simp_all add: G4_def)
  from single_graph_reduce_dim [OF svd_G4 reduce_dim_G4 sh] G4_not_symmetric reduce_dim_G4
  show ?thesis by auto
qed

section \<open>\<^verbatim>\<open>ClassicalMDS\<close>\<close>

lemmas mds_defs = ClassicalMDS_fit_transform_def ClassicalMDS_fit_def dissimilarity_of_def
  is_ndarray_def shape0_def getattr_def

lemma double_center_D2: "double_center D2 = Inr (Matrix 2 2 [[1, - 1], [- 1, 1]])"
  by (simp add: double_center_def get_centering_matrix_def D2_def np_defs upt_rec numeral_2_eq_2)

lemma svd_B:
  "selectSVD sample_env (Matrix 2 2 [[1, - 1], [- 1, 1]]) (Some 1) None ''full'' None =
     Inr (Matrix 2 1 [[1 / sqrt 2], [- (1 / sqrt 2)]], [2], Matrix 1 2 [[1 / sqrt 2, - (1 / sqrt 2)]])"
  by (simp add: sample_env_def sample_selectSVD_def first_nonzero_row_def norm2_def column_def Let_def)

lemma D2_symmetric: "is_symmetric sample_env D2 = Inr True"
  by (simp add: sample_env_def near_symmetric_def D2_def transpose_m_def column_def upt_rec)

lemma check_array_D2: "check_array_2d sample_env (NdArray2 D2) = Inr D2"
  by (simp add: sample_env_def)

lemma mds_fit_D2:
  "ClassicalMDS_fit_transform sample_env (NdArray2 D2) mds1 =
     (Inr (Matrix 2 1 [[1], [- 1]]),
      mds1\<lparr>mds_n_components' := Some 1,
           components' := Some (Matrix 2 1 [[1 / sqrt 2], [- (1 / sqrt 2)]]),
           mds_singular_values' := Some [sqrt 2],
           dissimilarity_matrix' := Some D2\<rparr>)"
proof -
  have n: "nrows D2 = 2" by (simp add: D2_def)
  have m: "matmul (Matrix 2 1 [[1 / sqrt 2], [- (1 / sqrt 2)]]) (diag [sqrt 2]) =
             Inr (Matrix 2 1 [[1], [- 1]])"
    by (simp add: matmul_def diag_def dot_def column_def upt_rec)
  from m show ?thesis
    by (simp add: mds_defs mds1_def check_array_D2 D2_symmetric double_center_D2 svd_B n)
qed

lemma mds_fit_D2': 
  "ClassicalMDS_fit_transform sample_env (NdArray2 D2) mds1 = (Inr (Matrix 2 1 [[1], [- 1]]), fitted_mds)"
  using mds_fit_D2 by (simp add: fitted_mds_def)

lemma G4_rejected_hyps:
  "is_ndarray (NdArray2 G4) \<and>
   (mds_n_components mds1 = None \<or> the (mds_n_components mds1) \<le> int (shape0 (NdArray2 G4))) \<and>
   dissimilarity mds1 = ''precomputed'' \<and>
   check_array_2d sample_env (NdArray2 G4) = Inr G4 \<and> is_symmetric sample_env G4 = Inr False"
  by (simp add: is_ndarray_def shape0_def mds1_def G4_def sample_env_def near_symmetric_def
        transpose_m_def column_def upt_rec)

lemma centering_matrix_entries:
  assumes "get_centering_matrix n = Inr J" and "i < n" and "j < n"
  shows "rows J ! i ! j = (if i = j then 1 else 0) - 1 / real n"
  using assms
  by (auto simp: get_centering_matrix_def minus_matrix_def identity_def ones_def
        scalar_times_def map_matrix_def split: if_splits)

lemma fit_transform_mds_Inr:
  assumes "ClassicalMDS_fit_transform env X self = (Inr Y, s')"
  shows "\<exists>Dm B U S V.
           dissimilarity_of env self X = Inr Dm \<and> double_center Dm = Inr B \<and>
           selectSVD env B (mds_n_components self) None
             (if mds_n_components self = Some 1 then ''full'' else ''randomized'') None =
             Inr (U, S, V) \<and>
           matmul U (diag (map sqrt S)) = Inr Y"
  using assms
  by (auto simp: ClassicalMDS_fit_transform_def ClassicalMDS_fit_def getattr_def
           split: if_splits sum.splits prod.splits)

lemma double_center_Inr:
  assumes "double_center Dm = Inr B"
  shows "\<exists>J JD JDJ. 0 < nrows Dm \<and> get_centering_matrix (nrows Dm) = Inr J \<and>
           matmul J (map_matrix (\<lambda>x. x ^ 2) Dm) = Inr JD \<and> matmul JD J = Inr JDJ \<and>
           B = scale_matrix JDJ (- 0.5)"
  using assms
  by (auto simp: double_center_def get_centering_matrix_def split: sum.splits if_splits)

text \<open>
  Claim C9. When \<^verbatim>\<open>fit_transform\<close> returns \<open>Y\<close>, with \<open>Dm\<close> the dissimilarity
  matrix of \<^verbatim>\<open>fit\<close> and \<open>n\<close> its number of rows: \<open>J\<close> is \<open>I - (1/n) \<cdot> ones\<close>, the
  solver was applied to \<open>B = ((J \<cdot> Dm\<^sup>2) \<cdot> J) \<cdot> (-1/2)\<close>, with the square taken entry by
  entry, and \<open>Y\<close> is \<open>U \<cdot> diag(sqrt S)\<close> for the \<open>(U, S, V)\<close> the solver returned. With
  precomputed dissimilarities, a matrix that \<^verbatim>\<open>is_symmetric\<close> refuses is rejected with
  a ValueError and the instance is left as it was.
\<close>

theorem classical_mds:
  "(ClassicalMDS_fit_transform env X self = (Inr Y, s') \<longrightarrow>
      (\<exists>Dm J JD JDJ U S V.
         dissimilarity_of env self X = Inr Dm \<and> 0 < nrows Dm \<and>
         J = minus_matrix (identity (nrows Dm))
               (scalar_times (1 / real (nrows Dm)) (ones (nrows Dm) (nrows Dm))) \<and>
         (\<forall>i<nrows Dm. \<forall>j<nrows Dm.
            rows J ! i ! j = (if i = j then 1 else 0) - 1 / real (nrows Dm)) \<and>
         matmul J (map_matrix (\<lambda>x. x ^ 2) Dm) = Inr JD \<and>
         matmul JD J = Inr JDJ \<and>
         selectSVD env (scale_matrix JDJ (- 0.5)) (mds_n_components self) None
           (if mds_n_components self = Some 1 then ''full'' else ''randomized'') None =
           Inr (U, S, V) \<and>
         matmul U (diag (map sqrt S)) = Inr Y)) \<and>
   (is_ndarray X \<and> (mds_n_components self = None \<or> the (mds_n_components self) \<le> int (shape0 X)) \<and>
    dissimilarity self = ''precomputed'' \<and>
    check_array_2d env X = Inr Dm' \<and> is_symmetric env Dm' = Inr False \<longrightarrow>
      ClassicalMDS_fit_transform env X self =
        (Inl (ValueError ''X must be a symmetric array if precomputed dissimilarity matrix.''), self))"
proof (intro conjI impI)
  assume a: "ClassicalMDS_fit_transform env X self = (Inr Y, s')"
  from fit_transform_mds_Inr [OF a] obtain Dm B U S V where
    dm: "dissimilarity_of env self X = Inr Dm" and dc: "double_center Dm = Inr B" and
    svd: "selectSVD env B (mds_n_components self) None
             (if mds_n_components self = Some 1 then ''full'' else ''randomized'') None =
             Inr (U, S, V)" and
    y: "matmul U (diag (map sqrt S)) = Inr Y"
    by blast
  from double_center_Inr [OF dc] obtain J JD JDJ where
    n: "0 < nrows Dm" and j: "get_centering_matrix (nrows Dm) = Inr J" and
    jd: "matmul J (map_matrix (\<lambda>x. x ^ 2) Dm) = Inr JD" and jdj: "matmul JD J = Inr JDJ" and
    b: "B = scale_matrix JDJ (- 0.5)"
    by blast
  from j n have jeq: "J = minus_matrix (identity (nrows Dm))
               (scalar_times (1 / real (nrows Dm)) (ones (nrows Dm) (nrows Dm)))"
    by (simp add: get_centering_matrix_def)
  have ent: "\<forall>i<nrows Dm. \<forall>j<nrows Dm.
            rows J ! i ! j = (if i = j then 1 else 0) - 1 / real (nrows Dm)"
    using centering_matrix_entries [OF j] by blast
  from dm n jeq ent jd jdj svd y b
  show "\<exists>Dm J JD JDJ U S V.
         dissimilarity_of env self X = Inr Dm \<and> 0 < nrows Dm \<and>
         J = minus_matrix (identity (nrows Dm))
               (scalar_times (1 / real (nrows Dm)) (ones (nrows Dm) (nrows Dm))) \<and>
         (\<forall>i<nrows Dm. \<forall>j<nrows Dm.
            rows J ! i ! j = (if i = j then 1 else 0) - 1 / real (nrows Dm)) \<and>
         matmul J (map_matrix (\<lambda>x. x ^ 2) Dm) = Inr JD \<and>
         matmul JD J = Inr JDJ \<and>
         selectSVD env (scale_matrix JDJ (- 0.5)) (mds_n_components self) None
           (if mds_n_components self = Some 1 then ''full'' else ''randomized'') None =
           Inr (U, S, V) \<and>
         matmul U (diag (map sqrt S)) = Inr Y"
    by blast
next
  assume "is_ndarray X \<and> (mds_n_components self = None \<or> the (mds_n_components self) \<le> int (shape0 X)) \<and>
    dissimilarity self = ''precomputed'' \<and>
    check_array_2d env X = Inr Dm' \<and> is_symmetric env Dm' = Inr False"
  then show "ClassicalMDS_fit_transform env X self =
        (Inl (ValueError ''X must be a symmetric array if precomputed dissimilarity matrix.''), self)"
    by (auto simp: ClassicalMDS_fit_transform_def ClassicalMDS_fit_def dissimilarity_of_def)
qed

theorem classical_mds_witness:
  "ClassicalMDS_fit_transform sample_env (NdArray2 D2) mds1 =
     (Inr (Matrix 2 1 [[1], [- 1]]), fitted_mds) \<and>
   (\<exists>Dm J JD JDJ U S V.
         dissimilarity_of sample_env mds1 (NdArray2 D2) = Inr Dm \<and> 0 < nrows Dm \<and>
         J = minus_matrix (identity (nrows Dm))
               (scalar_times (1 / real (nrows Dm)) (ones (nrows Dm) (nrows Dm))) \<and>
         matmul J (map_matrix (\<lambda>x. x ^ 2) Dm) = Inr JD \<and>
         matmul JD J = Inr JDJ \<and>
         selectSVD sample_env (scale_matrix JDJ (- 0.5)) (mds_n_components mds1) None
           (if mds_n_components mds1 = Some 1 then ''full'' else ''randomized'') None =
           Inr (U, S, V) \<and>
         matmul U (diag (map sqrt S)) = Inr (Matrix 2 1 [[1], [- 1]])) \<and>
   check_array_2d sample_env (NdArray2 G4) = Inr G4 \<and>
   is_symmetric sample_env G4 = Inr False \<and>
   ClassicalMDS_fit_transform sample_env (NdArray2 G4) mds1 =
     (Inl (ValueError ''X must be a symmetric array if precomputed dissimilarity matrix.''), mds1)"
proof -
  note a = classical_mds [of sample_env "NdArray2 D2" mds1 "Matrix 2 1 [[1], [- 1]]" fitted_mds G4,
      THEN conjunct1, THEN mp, OF mds_fit_D2']
  note b = classical_mds [of sample_env "NdArray2 G4" mds1 "Matrix 2 1 [[1], [- 1]]" fitted_mds G4,
      THEN conjunct2, THEN mp, OF G4_rejected_hyps]
  from a obtain Dm J JD JDJ U S V where
    "dissimilarity_of sample_env mds1 (NdArray2 D2) = Inr Dm" "0 < nrows Dm"
    "J = minus_matrix (identity (nrows Dm))
               (scalar_times (1 / real (nrows Dm)) (ones (nrows Dm) (nrows Dm)))"
    "matmul J (map_matrix (\<lambda>x. x ^ 2) Dm) = Inr JD"
    "matmul JD J = Inr JDJ"
    "selectSVD sample_env (scale_matrix JDJ (- 0.5)) (mds_n_components mds1) None
           (if mds_n_components mds1 = Some 1 then ''full'' else ''randomized'') None =
           Inr (U, S, V)"
    "matmul U (diag (map sqrt S)) = Inr (Matrix 2 1 [[1], [- 1]])"
    by blast
  with b mds_fit_D2' G4_rejected_hyps show ?thesis by blast
qed

end
